theory Spec2Isabelle
  imports Main
begin

section \<open>Python values and errors\<close>

text \<open>
  Every exception the modelled code can raise is a value of \<open>error\<close>.
  \<open>LLVMError\<close> stands for a failure inside the external code-generation
  library (emitting without an insertion point, a rejected module).
\<close>

datatype error =
    AssertionError
  | ValueError
  | KeyError
  | IndexError
  | AttributeError
  | NotImplementedError
  | LLVMError

subsection \<open>Decimal rendering of a counter\<close>

text \<open>
  \<open>str(count)\<close> and the \<open>%d\<close> conversion of a non-negative Python int: the
  decimal digits, most significant first, no sign and no leading zero.
\<close>

definition digit :: "nat \<Rightarrow> char" where
  "digit d = ''0123456789'' ! d"

fun str_nat :: "nat \<Rightarrow> string" where
  "str_nat n = (if n < 10 then [digit n] else str_nat (n div 10) @ [digit (n mod 10)])"

declare str_nat.simps [simp del]

section \<open>Naming service\<close>

text \<open>
  \<open>make_temper\<close> returns a closure over \<open>temps\<close>, a \<open>defaultdict(int)\<close>: the
  closure's state is the function from base names to counters, every counter 0 at
  first. A call takes the state and returns the name with the new state.
\<close>

type_synonym temps = "string \<Rightarrow> nat"

definition make_temper :: temps where
  "make_temper = (\<lambda>name. 0)"

definition temper :: "temps \<Rightarrow> string \<Rightarrow> string \<times> temps" where
  "temper temps name =
     (let count = temps name;
          temps' = temps(name := temps name + 1)
      in if name \<noteq> [] \<and> count = 0 then (name, temps')
         else if name \<noteq> [] then (name @ ''_'' @ str_nat count, temps')
         else (str_nat count, temps'))"

text \<open>A sequence of requests to one instance, in order, with the names returned.\<close>

fun temper_calls :: "temps \<Rightarrow> string list \<Rightarrow> string list \<times> temps" where
  "temper_calls temps [] = ([], temps)"
| "temper_calls temps (name # names) =
     (let (r, temps') = temper temps name;
          (rs, temps'') = temper_calls temps' names
      in (r # rs, temps''))"

text \<open>The names returned for one base name, in the order of the requests.\<close>

definition returned_for :: "string \<Rightarrow> temps \<Rightarrow> string list \<Rightarrow> string list" where
  "returned_for name temps names =
     map snd (filter (\<lambda>(n, r). n = name) (zip names (fst (temper_calls temps names))))"

section \<open>Values, operations and blocks\<close>

text \<open>
  Blocks, variables and operations are mutable objects compared by identity: each lives
  in a heap (a list), and a reference is its index there. A new object takes the next
  index, so it differs from every object that exists. Opcodes and constants are never
  mutated and are held by value.
\<close>

type_synonym block_ref = nat
type_synonym var_ref = nat
type_synonym op_ref = nat

datatype pyval = PyInt int | PyStr string | PyNone

record opcode =
  op :: string
  sideeffects :: bool
  canfold :: bool
  read :: bool
  exceptions :: "string list"

text \<open>
  An argument of an operation is a \<open>Variable\<close> (a reference) or a \<open>Constant\<close>
  (its literal and its optional type). \<open>is_var\<close> is the class attribute.
\<close>

datatype arg = Var var_ref | Const pyval "string option"

fun is_var :: "arg \<Rightarrow> bool" where
  "is_var (Var v) = True"
| "is_var (Const c t) = False"

fun is_const :: "arg \<Rightarrow> bool" where
  "is_const (Var v) = False"
| "is_const (Const c t) = True"

record operation =
  opcode :: opcode
  args :: "arg list"
  result :: "var_ref option"

record variable =
  name :: string
  operation :: op_ref
  vtype :: "string option"
  uses :: "var_ref list"

text \<open>
  \<open>Block\<close> adds \<open>funcgraph\<close> and \<open>instrs\<close> to the fields of
  \<open>basicblocks.BasicBlock\<close>. A builder works on one graph, so the owner field
  \<open>block_funcgraph\<close> only records whether it has been set.

  Modelled from the spec: \<open>basicblocks.BasicBlock\<close> is not among the sources. The
  spec gives it an identity (\<open>id\<close>, \<open>label\<close>, optional \<open>pos\<close>) and read access
  to its current \<open>children\<close> and \<open>parents\<close>, which it calls sets and whose order
  the lowering reads (first child, second child). Both are kept as lists without
  repetition, in the order the edges were added.
\<close>

record block =
  block_id :: nat
  label :: string
  pos :: "nat option"
  parents :: "block_ref list"
  children :: "block_ref list"
  block_funcgraph :: bool
  instrs :: "var_ref list"

record funcgraph =
  fg_name :: string
  blocks :: "block_ref list"
  fg_temper :: temps

text \<open>
  The state an \<open>OperationBuilder\<close> works on: the objects, the graph it was given
  and its own naming service.
\<close>

record state =
  block_heap :: "block list"
  var_heap :: "variable list"
  op_heap :: "operation list"
  funcgraph :: funcgraph
  block_temper :: temps

text \<open>\<open>FunctionGraph(name)\<close> and \<open>OperationBuilder(funcgraph)\<close>, with no object yet.\<close>

definition FunctionGraph :: "string \<Rightarrow> funcgraph" where
  "FunctionGraph n = \<lparr>fg_name = n, blocks = [], fg_temper = make_temper\<rparr>"

definition OperationBuilder :: "funcgraph \<Rightarrow> state" where
  "OperationBuilder g =
     \<lparr>block_heap = [], var_heap = [], op_heap = [], funcgraph = g,
      block_temper = make_temper\<rparr>"

text \<open>An attribute update of the object at a reference.\<close>

definition upd :: "nat \<Rightarrow> ('a \<Rightarrow> 'a) \<Rightarrow> 'a list \<Rightarrow> 'a list" where
  "upd r f h = (if r < length h then h[r := f (h ! r)] else h)"

subsection \<open>Edges between blocks\<close>

text \<open>
  Modelled from the spec: the edge operations of \<open>basicblocks.BasicBlock\<close>
  (\<open>add_parents(*blocks)\<close>, \<open>add_children(*blocks)\<close>, \<open>detach_parents()\<close>,
  \<open>detach_children()\<close>) are not among the sources. The spec has them keep the two
  directions consistent: a child's parents contain the block and the block's children
  contain the child. Adding an edge enters it at both ends; detaching removes the block
  from the other end of each edge and leaves it with none on that side.
\<close>

definition insert_ref :: "nat \<Rightarrow> nat list \<Rightarrow> nat list" where
  "insert_ref r rs = (if r \<in> set rs then rs else rs @ [r])"

definition add_edge :: "block_ref \<Rightarrow> block_ref \<Rightarrow> block list \<Rightarrow> block list" where
  "add_edge parent child h =
     upd parent (\<lambda>b. b\<lparr>children := insert_ref child (children b)\<rparr>)
       (upd child (\<lambda>b. b\<lparr>parents := insert_ref parent (parents b)\<rparr>) h)"

definition add_parents :: "block_ref \<Rightarrow> block_ref list \<Rightarrow> block list \<Rightarrow> block list" where
  "add_parents self ps h = foldl (\<lambda>h' p. add_edge p self h') h ps"

definition add_children :: "block_ref \<Rightarrow> block_ref list \<Rightarrow> block list \<Rightarrow> block list" where
  "add_children self cs h = foldl (\<lambda>h' c. add_edge self c h') h cs"

definition detach_children :: "block_ref \<Rightarrow> block list \<Rightarrow> block list" where
  "detach_children self h =
     upd self (\<lambda>b. b\<lparr>children := []\<rparr>)
       (foldl (\<lambda>h' c. upd c (\<lambda>b. b\<lparr>parents := removeAll self (parents b)\<rparr>) h')
          h (children (h ! self)))"

definition detach_parents :: "block_ref \<Rightarrow> block list \<Rightarrow> block list" where
  "detach_parents self h =
     upd self (\<lambda>b. b\<lparr>parents := []\<rparr>)
       (foldl (\<lambda>h' p. upd p (\<lambda>b. b\<lparr>children := removeAll self (children b)\<rparr>) h')
          h (parents (h ! self)))"

text \<open>\<open>Block.append\<close> and \<open>Block.extend\<close>.\<close>

definition block_append :: "state \<Rightarrow> block_ref \<Rightarrow> var_ref \<Rightarrow> state" where
  "block_append s block instr =
     s\<lparr>block_heap := upd block (\<lambda>b. b\<lparr>instrs := instrs b @ [instr]\<rparr>) (block_heap s)\<rparr>"

definition block_extend :: "state \<Rightarrow> block_ref \<Rightarrow> var_ref list \<Rightarrow> state" where
  "block_extend s block is =
     s\<lparr>block_heap := upd block (\<lambda>b. b\<lparr>instrs := instrs b @ is\<rparr>) (block_heap s)\<rparr>"

section \<open>OperationBuilder\<close>

text \<open>\<open>name or "block"\<close>: \<open>None\<close> and the empty string are both false.\<close>

definition name_or_block :: "string option \<Rightarrow> string" where
  "name_or_block n = (case n of None \<Rightarrow> ''block'' | Some x \<Rightarrow> if x = [] then ''block'' else x)"

text \<open>
  \<open>add_block\<close>: the label comes from the builder's \<open>block_temper\<close>, the id is
  the number of blocks the graph has so far, and each parent is added by a call of its
  own.
\<close>

definition add_block ::
  "state \<Rightarrow> block_ref list \<Rightarrow> string option \<Rightarrow> nat option \<Rightarrow> block_ref \<times> state" where
  "add_block s ps n p =
     (let (name', t') = temper (block_temper s) (name_or_block n);
          block = length (block_heap s);
          b = \<lparr>block_id = length (blocks (funcgraph s)), label = name', pos = p,
               parents = [], children = [], block_funcgraph = True, instrs = []\<rparr>;
          s1 = s\<lparr>block_temper := t',
                 block_heap := block_heap s @ [b],
                 funcgraph := (funcgraph s)\<lparr>blocks := blocks (funcgraph s) @ [block]\<rparr>\<rparr>
      in (block,
          s1\<lparr>block_heap :=
               foldl (\<lambda>h parent. add_parents block [parent] h) (block_heap s1) ps\<rparr>))"

text \<open>\<open>Operation(opcode, args)\<close>: a new operation with no result yet.\<close>

definition Operation :: "state \<Rightarrow> opcode \<Rightarrow> arg list \<Rightarrow> op_ref \<times> state" where
  "Operation s oc as =
     (length (op_heap s),
      s\<lparr>op_heap := op_heap s @ [\<lparr>opcode = oc, args = as, result = None\<rparr>]\<rparr>)"

text \<open>
  \<open>create_variable\<close>: the name comes from the same \<open>block_temper\<close>; the loop
  over the arguments appends the new variable to the uses of each argument that is a
  variable, once for each position.
\<close>

definition create_variable :: "state \<Rightarrow> op_ref \<Rightarrow> string \<Rightarrow> var_ref \<times> state" where
  "create_variable s operation' n =
     (let (name', t') = temper (block_temper s) n;
          var = length (var_heap s);
          s1 = s\<lparr>block_temper := t',
                 var_heap := var_heap s @
                   [\<lparr>name = name', operation = operation', vtype = None, uses = []\<rparr>]\<rparr>;
          s2 = s1\<lparr>op_heap := upd operation' (\<lambda>x. x\<lparr>result := Some var\<rparr>) (op_heap s1)\<rparr>
      in (var,
          s2\<lparr>var_heap :=
               foldl (\<lambda>h a. case a of
                               Var v \<Rightarrow> upd v (\<lambda>x. x\<lparr>uses := uses x @ [var]\<rparr>) h
                             | Const c t \<Rightarrow> h)
                 (var_heap s2) (args (op_heap s2 ! operation'))\<rparr>))"

definition op' :: "state \<Rightarrow> opcode \<Rightarrow> arg list \<Rightarrow> string \<Rightarrow> var_ref \<times> state" where
  "op' s oc as n = (let (operation', s1) = Operation s oc as in create_variable s1 operation' n)"

definition const :: "pyval \<Rightarrow> arg" where
  "const pyval = Const pyval None"

text \<open>
  \<open>list.index\<close>: the position of the first element equal to \<open>x\<close>; \<open>ValueError\<close>
  when there is none. Variables compare by identity.
\<close>

fun index :: "'a list \<Rightarrow> 'a \<Rightarrow> nat option" where
  "index [] x = None"
| "index (y # ys) x = (if y = x then Some 0 else map_option Suc (index ys x))"

text \<open>
  \<open>splitblock\<close> reads the children of the block before it detaches them and hands
  what it has read to the new block. The graph has been changed already when the
  search for the instruction raises.
\<close>

definition splitblock ::
  "state \<Rightarrow> block_ref \<Rightarrow> var_ref \<Rightarrow> string option \<Rightarrow> error + block_ref \<times> state" where
  "splitblock s block instr n =
     (let children' = children (block_heap s ! block);
          s1 = s\<lparr>block_heap := detach_children block (block_heap s)\<rparr>;
          (newblock, s2) = add_block s1 [block] n None;
          s3 = s2\<lparr>block_heap := add_children newblock children' (block_heap s2)\<rparr>
      in case index (instrs (block_heap s3 ! block)) instr of
           None \<Rightarrow> Inl ValueError
         | Some split_idx \<Rightarrow>
             (let before = take split_idx (instrs (block_heap s3 ! block));
                  after = drop split_idx (instrs (block_heap s3 ! block));
                  s4 = s3\<lparr>block_heap := upd block (\<lambda>b. b\<lparr>instrs := before\<rparr>) (block_heap s3)\<rparr>;
                  s5 = s4\<lparr>block_heap := upd newblock (\<lambda>b. b\<lparr>instrs := after\<rparr>) (block_heap s4)\<rparr>
              in Inr (newblock, s5)))"

text \<open>
  \<open>if else_body\<close>: \<open>None\<close> and the empty list are both false. The function returns
  nothing; the model also returns the four blocks it has bound to \<open>cond_block\<close>,
  \<open>exit_block\<close>, \<open>if_block\<close> and \<open>else_block\<close>, so that the resulting shape can
  be stated. The last call, \<open>exit_block.add_parents([if_block, else_block])\<close>,
  names both arms in one list; they are taken as the two parents to add.
\<close>

record diamond =
  cond_block :: block_ref
  exit_block :: block_ref
  if_block :: block_ref
  else_block :: block_ref

definition if_then_else ::
  "state \<Rightarrow> block_ref \<Rightarrow> var_ref \<Rightarrow> var_ref \<Rightarrow> var_ref list \<Rightarrow> var_ref list option
     \<Rightarrow> error + diamond \<times> state" where
  "if_then_else s block instr condition if_body else_body =
     (let (cond_block', s1) = add_block s [block] None None;
          s2 = block_append s1 cond_block' condition
      in case splitblock s2 block instr None of
           Inl e \<Rightarrow> Inl e
         | Inr (exit_block', s3) \<Rightarrow>
             (let s4 = s3\<lparr>block_heap := detach_parents exit_block' (block_heap s3)\<rparr>;
                  (if_block', s5) = add_block s4 [cond_block'] None None;
                  s6 = s5\<lparr>block_heap :=
                            upd if_block' (\<lambda>b. b\<lparr>instrs := if_body\<rparr>) (block_heap s5)\<rparr>;
                  (else_block', s8) =
                    (case else_body of
                       Some (i # is) \<Rightarrow>
                         (let (e, s7) = add_block s6 [cond_block'] None None
                          in (e, s7\<lparr>block_heap :=
                                      upd e (\<lambda>b. b\<lparr>instrs := i # is\<rparr>) (block_heap s7)\<rparr>))
                     | _ \<Rightarrow> (cond_block', s6))
              in Inr (\<lparr>cond_block = cond_block', exit_block = exit_block',
                        if_block = if_block', else_block = else_block'\<rparr>,
                      s8\<lparr>block_heap :=
                           add_parents exit_block' [if_block', else_block'] (block_heap s8)\<rparr>)))"

section \<open>OperationContext\<close>

text \<open>
  The classification queries are methods a target supplies: each is a function from
  the object it is handed to a truth value or the exception it raises. The lowering
  hands them operations and, in one place, a block.
\<close>

datatype pyobj = OperationObj operation | BlockObj block

record OperationContext =
  is_terminator :: "pyobj \<Rightarrow> error + bool"
  is_return :: "pyobj \<Rightarrow> error + bool"
  is_conditional_branch :: "pyobj \<Rightarrow> error + bool"
  get_condition :: "operation \<Rightarrow> error + arg"
  is_boolean_operation :: "pyobj \<Rightarrow> error + bool"
  opname :: "opcode \<Rightarrow> string"

definition is_pure :: "operation \<Rightarrow> bool" where
  "is_pure operation' = (let oc = opcode operation' in \<not> sideeffects oc \<and> canfold oc)"

text \<open>\<open>conditional_branch.args[0]\<close>, an \<open>IndexError\<close> when there is no argument.\<close>

definition get_condition_default :: "operation \<Rightarrow> error + arg" where
  "get_condition_default conditional_branch =
     (case args conditional_branch of [] \<Rightarrow> Inl IndexError | a # as \<Rightarrow> Inr a)"

definition opname_default :: "opcode \<Rightarrow> string" where
  "opname_default oc = op oc"

text \<open>The base class: the classification queries raise.\<close>

definition OperationContext_base :: OperationContext where
  "OperationContext_base =
     \<lparr>is_terminator = (\<lambda>x. Inl NotImplementedError),
      is_return = (\<lambda>x. Inl NotImplementedError),
      is_conditional_branch = (\<lambda>x. Inl NotImplementedError),
      get_condition = get_condition_default,
      is_boolean_operation = (\<lambda>x. Inl NotImplementedError),
      opname = opname_default\<rparr>"

section \<open>The code-generation library\<close>

text \<open>
  Modelled from the spec: the library the lowering emits into (\<open>llvmpy\<close>, and
  \<open>llvm_utils\<close>, \<open>llvm_types\<close>, \<open>llvm_const\<close> of \<open>numba.experimental\<close>) is
  not among the sources. The spec lists what is consumed: module creation, function
  declaration or lookup, block creation, an insertion cursor, call, branch, conditional
  branch and return emission, a one-bit type, the uniform opaque type and its null
  value. A function is the list of its blocks, a block the list of the instructions
  emitted into it, and the value of a call is named by the place of the call.
\<close>

datatype ltype = unknown_ptr | i1

datatype lvalue = CallResult nat nat ltype | null ltype

fun getType :: "lvalue \<Rightarrow> ltype" where
  "getType (CallResult l k t) = t"
| "getType (null t) = t"

datatype linstr =
    Call string ltype "lvalue list"
  | Br nat
  | CondBr lvalue nat nat
  | Ret lvalue

fun is_Call :: "linstr \<Rightarrow> bool" where
  "is_Call (Call n t as) = True"
| "is_Call i = False"

record lblock =
  lblock_name :: string
  linstrs :: "linstr list"

record lfunction =
  lfunc_name :: string
  lfunc_restype :: ltype
  lfunc_argtys :: "ltype list"
  lblocks :: "lblock list"

record lmodule =
  lmod_name :: string
  lmod_funcs :: "(string \<times> ltype \<times> ltype list) list"

definition get_or_insert_func :: "lmodule \<Rightarrow> string \<Rightarrow> ltype \<Rightarrow> ltype list \<Rightarrow> lmodule" where
  "get_or_insert_func m n restype argtys =
     (if n \<in> set (map fst (lmod_funcs m)) then m
      else m\<lparr>lmod_funcs := lmod_funcs m @ [(n, restype, argtys)]\<rparr>)"

subsection \<open>LLVMBuilder\<close>

record LLVMBuilder =
  lb_name :: string
  opague_type :: ltype
  lmod :: lmodule
  lfunc :: lfunction
  builder :: "nat option"

definition make_module :: "string \<Rightarrow> lmodule" where
  "make_module n = \<lparr>lmod_name = ''module.'' @ n, lmod_funcs = []\<rparr>"

definition make_func :: "lmodule \<Rightarrow> string \<Rightarrow> ltype \<Rightarrow> string list \<Rightarrow> lmodule \<times> lfunction" where
  "make_func m n t argnames =
     (let argtys = replicate (length argnames) t;
          restype = t
      in (get_or_insert_func m n restype argtys,
          \<lparr>lfunc_name = n, lfunc_restype = restype, lfunc_argtys = argtys, lblocks = []\<rparr>))"

definition LLVMBuilder_init :: "string \<Rightarrow> ltype \<Rightarrow> string list \<Rightarrow> LLVMBuilder" where
  "LLVMBuilder_init n t argnames =
     (let (m, f) = make_func (make_module n) n t argnames
      in \<lparr>lb_name = n, opague_type = t, lmod = m, lfunc = f, builder = None\<rparr>)"

text \<open>\<open>add_block\<close> of the builder, through \<open>make_block\<close>: a new, empty block.\<close>

definition LLVMBuilder_add_block :: "LLVMBuilder \<Rightarrow> string \<Rightarrow> nat \<times> LLVMBuilder" where
  "LLVMBuilder_add_block b blockname =
     (length (lblocks (lfunc b)),
      b\<lparr>lfunc := (lfunc b)\<lparr>lblocks := lblocks (lfunc b) @
           [\<lparr>lblock_name = ''block_'' @ blockname, linstrs = []\<rparr>]\<rparr>\<rparr>)"

definition SetInsertPoint :: "LLVMBuilder \<Rightarrow> nat \<Rightarrow> LLVMBuilder" where
  "SetInsertPoint b dstblock = b\<lparr>builder := Some dstblock\<rparr>"

text \<open>
  An instruction goes to the end of the block the cursor is at; without a cursor, or
  with one outside the function, the library fails.
\<close>

definition emit :: "LLVMBuilder \<Rightarrow> linstr \<Rightarrow> error + LLVMBuilder" where
  "emit b i =
     (case builder b of
        None \<Rightarrow> Inl LLVMError
      | Some l \<Rightarrow>
          if l < length (lblocks (lfunc b))
          then Inr (b\<lparr>lfunc := (lfunc b)\<lparr>lblocks :=
                      upd l (\<lambda>x. x\<lparr>linstrs := linstrs x @ [i]\<rparr>) (lblocks (lfunc b))\<rparr>\<rparr>)
          else Inl LLVMError)"

definition CreateCall :: "LLVMBuilder \<Rightarrow> string \<Rightarrow> ltype \<Rightarrow> lvalue list \<Rightarrow> error + lvalue \<times> LLVMBuilder" where
  "CreateCall b callee restype as =
     (case emit b (Call callee restype as) of
        Inl e \<Rightarrow> Inl e
      | Inr b' \<Rightarrow>
          Inr (CallResult (the (builder b))
                 (length (linstrs (lblocks (lfunc b) ! the (builder b)))) restype, b'))"

definition CreateBr :: "LLVMBuilder \<Rightarrow> nat \<Rightarrow> error + LLVMBuilder" where
  "CreateBr b dst = emit b (Br dst)"

definition CreateCondBr :: "LLVMBuilder \<Rightarrow> lvalue \<Rightarrow> nat \<Rightarrow> nat \<Rightarrow> error + LLVMBuilder" where
  "CreateCondBr b c dst1 dst2 = emit b (CondBr c dst1 dst2)"

definition CreateRet :: "LLVMBuilder \<Rightarrow> lvalue \<Rightarrow> error + LLVMBuilder" where
  "CreateRet b v = emit b (Ret v)"

definition call_abstract ::
  "LLVMBuilder \<Rightarrow> string \<Rightarrow> ltype \<Rightarrow> lvalue list \<Rightarrow> error + lvalue \<times> LLVMBuilder" where
  "call_abstract b n restype as =
     (let argtys = map getType as;
          b1 = b\<lparr>lmod := get_or_insert_func (lmod b) n restype argtys\<rparr>
      in CreateCall b1 n restype as)"

section \<open>LLVMMapper\<close>

text \<open>
  The mapper holds the graph it was given (with the objects the graph reaches), its
  builder and its two dictionaries, keyed by the identity of variables and of blocks.
  Every method takes the whole of it and returns the whole of it, with the value or
  the exception raised, so that what a method leaves untouched can be stated.
\<close>

record LLVMMapper =
  graph :: state
  llvm :: LLVMBuilder
  llvm_values :: "var_ref \<rightharpoonup> lvalue"
  llvm_blocks :: "block_ref \<rightharpoonup> nat"

definition LLVMMapper_init :: "state \<Rightarrow> LLVMMapper" where
  "LLVMMapper_init s =
     \<lparr>graph = s,
      llvm = LLVMBuilder_init (fg_name (funcgraph s)) unknown_ptr [],
      llvm_values = Map.empty,
      llvm_blocks = Map.empty\<rparr>"

text \<open>
  \<open>self.llvm_values[arg]\<close>: a \<open>KeyError\<close> for a variable that has no value yet,
  and for a constant, which is never a key.
\<close>

definition lookup_value :: "(var_ref \<rightharpoonup> lvalue) \<Rightarrow> arg \<Rightarrow> error + lvalue" where
  "lookup_value m a =
     (case a of
        Var v \<Rightarrow> (case m v of None \<Rightarrow> Inl KeyError | Some x \<Rightarrow> Inr x)
      | Const c t \<Rightarrow> Inl KeyError)"

text \<open>The comprehension \<open>[self.llvm_values[arg] for arg in args if arg.is_var]\<close>.\<close>

fun lower_args :: "(var_ref \<rightharpoonup> lvalue) \<Rightarrow> arg list \<Rightarrow> error + lvalue list" where
  "lower_args m [] = Inr []"
| "lower_args m (a # as) =
     (if is_var a
      then (case lookup_value m a of
              Inl e \<Rightarrow> Inl e
            | Inr x \<Rightarrow> (case lower_args m as of Inl e \<Rightarrow> Inl e | Inr xs \<Rightarrow> Inr (x # xs)))
      else lower_args m as)"

definition llvm_operation ::
  "OperationContext \<Rightarrow> operation \<Rightarrow> lvalue list \<Rightarrow> LLVMMapper \<Rightarrow> (error + lvalue) \<times> LLVMMapper" where
  "llvm_operation opctx operation' llvm_args w =
     (let n = opname opctx (opcode operation');
          n' = n @ ''_'' @ str_nat (length (args operation'))
      in case is_boolean_operation opctx (OperationObj operation') of
           Inl e \<Rightarrow> (Inl e, w)
         | Inr boolean \<Rightarrow>
             (let restype = (if boolean then i1 else opague_type (llvm w))
              in case call_abstract (llvm w) n' restype llvm_args of
                   Inl e \<Rightarrow> (Inl e, w)
                 | Inr (v, b') \<Rightarrow> (Inr v, w\<lparr>llvm := b'\<rparr>)))"

definition process_op :: "OperationContext \<Rightarrow> var_ref \<Rightarrow> LLVMMapper \<Rightarrow> (error + unit) \<times> LLVMMapper" where
  "process_op opctx var w =
     (let operation' = op_heap (graph w) ! operation (var_heap (graph w) ! var)
      in case lower_args (llvm_values w) (args operation') of
           Inl e \<Rightarrow> (Inl e, w)
         | Inr as \<Rightarrow>
             (case llvm_operation opctx operation' as w of
                (Inl e, w') \<Rightarrow> (Inl e, w')
              | (Inr v, w') \<Rightarrow> (Inr (), w'\<lparr>llvm_values := (llvm_values w')(var \<mapsto> v)\<rparr>)))"

text \<open>\<open>self.llvm_blocks[block]\<close>.\<close>

definition lookup_block :: "(block_ref \<rightharpoonup> nat) \<Rightarrow> block_ref \<Rightarrow> error + nat" where
  "lookup_block m b = (case m b of None \<Rightarrow> Inl KeyError | Some l \<Rightarrow> Inr l)"

definition terminate_block :: "OperationContext \<Rightarrow> block_ref \<Rightarrow> LLVMMapper \<Rightarrow> (error + unit) \<times> LLVMMapper" where
  "terminate_block opctx block w =
     (let b = block_heap (graph w) ! block
      in if instrs b = [] then (Inl IndexError, w)
         else
           (let op'' = op_heap (graph w) ! operation (var_heap (graph w) ! last (instrs b))
            in case is_terminator opctx (OperationObj op'') of
                 Inl e \<Rightarrow> (Inl e, w)
               | Inr t \<Rightarrow>
                   if \<not> t then (Inl AssertionError, w)
                   else
                     (case is_conditional_branch opctx (OperationObj op'') of
                        Inl e \<Rightarrow> (Inl e, w)
                      | Inr c \<Rightarrow>
                          if \<not> c then (Inl AssertionError, w)
                          else if length (children b) \<noteq> 2 then (Inl AssertionError, w)
                          else
                            (case get_condition opctx op'' of
                               Inl e \<Rightarrow> (Inl e, w)
                             | Inr cond \<Rightarrow>
                                 (case lookup_value (llvm_values w) cond of
                                    Inl e \<Rightarrow> (Inl e, w)
                                  | Inr lcond \<Rightarrow>
                                      (case lookup_block (llvm_blocks w) (children b ! 0) of
                                         Inl e \<Rightarrow> (Inl e, w)
                                       | Inr l1 \<Rightarrow>
                                           (case lookup_block (llvm_blocks w) (children b ! 1) of
                                              Inl e \<Rightarrow> (Inl e, w)
                                            | Inr l2 \<Rightarrow>
                                                (case CreateCondBr (llvm w) lcond l1 l2 of
                                                   Inl e \<Rightarrow> (Inl e, w)
                                                 | Inr b' \<Rightarrow> (Inr (), w\<lparr>llvm := b'\<rparr>)))))))))"

text \<open>The first loop of \<open>make_llvm_graph\<close>: one low-level block for each block.\<close>

fun allocate_blocks :: "block_ref list \<Rightarrow> LLVMMapper \<Rightarrow> LLVMMapper" where
  "allocate_blocks [] w = w"
| "allocate_blocks (block # bs) w =
     (let (l, b') = LLVMBuilder_add_block (llvm w) (label (block_heap (graph w) ! block))
      in allocate_blocks bs (w\<lparr>llvm := b', llvm_blocks := (llvm_blocks w)(block \<mapsto> l)\<rparr>))"

text \<open>\<open>for var in vars: self.process_op(var)\<close>, stopping at the first exception.\<close>

fun process_ops :: "OperationContext \<Rightarrow> var_ref list \<Rightarrow> LLVMMapper \<Rightarrow> (error + unit) \<times> LLVMMapper" where
  "process_ops opctx [] w = (Inr (), w)"
| "process_ops opctx (var # vars) w =
     (case process_op opctx var w of
        (Inl e, w') \<Rightarrow> (Inl e, w')
      | (Inr u, w') \<Rightarrow> process_ops opctx vars w')"

text \<open>The body of the second loop of \<open>make_llvm_graph\<close>, for one block.\<close>

definition emit_block :: "OperationContext \<Rightarrow> block_ref \<Rightarrow> LLVMMapper \<Rightarrow> (error + unit) \<times> LLVMMapper" where
  "emit_block opctx block w =
     (let b = block_heap (graph w) ! block
      in case lookup_block (llvm_blocks w) block of
           Inl e \<Rightarrow> (Inl e, w)
         | Inr l \<Rightarrow>
             (let w1 = w\<lparr>llvm := SetInsertPoint (llvm w) l\<rparr>
              in case process_ops opctx (butlast (instrs b)) w1 of
                   (Inl e, w2) \<Rightarrow> (Inl e, w2)
                 | (Inr u, w2) \<Rightarrow>
                     if length (children b) = 1
                     then (case (if instrs b \<noteq> [] then process_op opctx (last (instrs b)) w2
                                 else (Inr (), w2)) of
                             (Inl e, w3) \<Rightarrow> (Inl e, w3)
                           | (Inr u', w3) \<Rightarrow>
                               (case lookup_block (llvm_blocks w3) (children b ! 0) of
                                  Inl e \<Rightarrow> (Inl e, w3)
                                | Inr lsucc \<Rightarrow>
                                    (case CreateBr (llvm w3) lsucc of
                                       Inl e \<Rightarrow> (Inl e, w3)
                                     | Inr b' \<Rightarrow> (Inr (), w3\<lparr>llvm := b'\<rparr>))))
                     else if instrs b \<noteq> [] then terminate_block opctx block w2
                     else (Inr (), w2)))"

fun emit_blocks :: "OperationContext \<Rightarrow> block_ref list \<Rightarrow> LLVMMapper \<Rightarrow> (error + unit) \<times> LLVMMapper" where
  "emit_blocks opctx [] w = (Inr (), w)"
| "emit_blocks opctx (block # bs) w =
     (case emit_block opctx block w of
        (Inl e, w') \<Rightarrow> (Inl e, w')
      | (Inr u, w') \<Rightarrow> emit_blocks opctx bs w')"

text \<open>
  What follows the loops. After the second loop \<open>block\<close> is still bound to the last
  element of \<open>blocks\<close>; \<open>is_return\<close> is handed \<open>blocks[-1]\<close>, the block. The
  \<open>or\<close> does not evaluate its second operand when the first is true.
\<close>

definition finalize :: "OperationContext \<Rightarrow> LLVMMapper \<Rightarrow> (error + unit) \<times> LLVMMapper" where
  "finalize opctx w =
     (let bs = blocks (funcgraph (graph w));
          block = block_heap (graph w) ! last bs
      in case (if instrs block = [] then Inr True
               else map_sum id Not (is_return opctx (BlockObj (block_heap (graph w) ! last bs)))) of
           Inl e \<Rightarrow> (Inl e, w)
         | Inr synthesize \<Rightarrow>
             if synthesize
             then (case CreateRet (llvm w) (null (opague_type (llvm w))) of
                     Inl e \<Rightarrow> (Inl e, w)
                   | Inr b' \<Rightarrow> (Inr (), w\<lparr>llvm := b'\<rparr>))
             else (Inr (), w))"

text \<open>
  \<open>verify\<close> stands for \<open>llvm_utils.verify_module\<close>, which is not among the sources:
  the library's own check of what was emitted, an error when it rejects it. Printing
  the function changes nothing.
\<close>

definition make_llvm_graph ::
  "OperationContext \<Rightarrow> (LLVMBuilder \<Rightarrow> bool) \<Rightarrow> LLVMMapper \<Rightarrow> (error + lfunction) \<times> LLVMMapper" where
  "make_llvm_graph opctx verify w =
     (let bs = blocks (funcgraph (graph w))
      in if bs = [] then (Inl AssertionError, w)
         else
           (let w1 = allocate_blocks bs w
            in case emit_blocks opctx bs w1 of
                 (Inl e, w2) \<Rightarrow> (Inl e, w2)
               | (Inr u, w2) \<Rightarrow>
                   (case finalize opctx w2 of
                      (Inl e, w3) \<Rightarrow> (Inl e, w3)
                    | (Inr u', w3) \<Rightarrow>
                        if verify (llvm w3) then (Inr (lfunc (llvm w3)), w3)
                        else (Inl LLVMError, w3))))"

section \<open>Example graphs\<close>

text \<open>
  Opcodes as \<open>Opcode(name, ...)\<close> makes them. \<open>add\<close> is pure: no side effects
  and foldable.
\<close>

definition opcode_add :: opcode where
  "opcode_add = \<lparr>op = ''add'', sideeffects = False, canfold = True, read = True, exceptions = []\<rparr>"

definition opcode_named :: "string \<Rightarrow> opcode" where
  "opcode_named n = \<lparr>op = n, sideeffects = True, canfold = False, read = True, exceptions = []\<rparr>"

text \<open>
  A context that classifies operations by the name of their opcode: \<open>br\<close> is a
  terminator and a conditional branch, \<open>ret\<close> a terminator and a return, \<open>lt\<close>
  a boolean operation. An object that is not an operation is in no class.
\<close>

definition opctx_by_name :: OperationContext where
  "opctx_by_name =
     \<lparr>is_terminator =
        (\<lambda>x. case x of OperationObj y \<Rightarrow> Inr (op (opcode y) \<in> {''br'', ''ret''})
                       | BlockObj b \<Rightarrow> Inr False),
      is_return =
        (\<lambda>x. case x of OperationObj y \<Rightarrow> Inr (op (opcode y) = ''ret'')
                       | BlockObj b \<Rightarrow> Inr False),
      is_conditional_branch =
        (\<lambda>x. case x of OperationObj y \<Rightarrow> Inr (op (opcode y) = ''br'')
                       | BlockObj b \<Rightarrow> Inr False),
      get_condition = get_condition_default,
      is_boolean_operation =
        (\<lambda>x. case x of OperationObj y \<Rightarrow> Inr (op (opcode y) = ''lt'')
                       | BlockObj b \<Rightarrow> Inr False),
      opname = opname_default\<rparr>"

text \<open>
  The graph \<open>f\<close>: one entry block holding one \<open>add\<close> of the constants 2 and 3,
  no children.
\<close>

definition graph_f :: state where
  "graph_f =
     (let s0 = OperationBuilder (FunctionGraph ''f'');
          (entry, s1) = add_block s0 [] None None;
          (v, s2) = op' s1 opcode_add [const (PyInt 2), const (PyInt 3)] ''''
      in block_append s2 entry v)"

text \<open>
  The same entry block followed by an empty exit block, its only child.
\<close>

definition graph_f_exit :: state where
  "graph_f_exit =
     (let s0 = OperationBuilder (FunctionGraph ''f'');
          (entry, s1) = add_block s0 [] None None;
          (v, s2) = op' s1 opcode_add [const (PyInt 2), const (PyInt 3)] '''';
          s3 = block_append s2 entry v;
          (exit', s4) = add_block s3 [entry] None None
      in s4)"

text \<open>
  An entry block \<open>[x, br]\<close>, where \<open>br\<close> branches on \<open>x\<close>, and three
  variables not yet in a block: a condition \<open>c\<close> and one instruction for each arm.
\<close>

definition graph_xbr :: state where
  "graph_xbr =
     (let s0 = OperationBuilder (FunctionGraph ''g'');
          (entry, s1) = add_block s0 [] None None;
          (x, s2) = op' s1 (opcode_named ''lt'') [const (PyInt 1), const (PyInt 2)] ''x'';
          (br, s3) = op' s2 (opcode_named ''br'') [Var x] ''br'';
          s4 = block_extend s3 entry [x, br];
          (c, s5) = op' s4 (opcode_named ''br'') [Var x] ''c'';
          (y, s6) = op' s5 opcode_add [const (PyInt 1), const (PyInt 1)] ''y'';
          (z, s7) = op' s6 opcode_add [const (PyInt 2), const (PyInt 2)] ''z''
      in s7)"

text \<open>A block with two children and no instruction: three empty blocks.\<close>

definition graph_fork :: state where
  "graph_fork =
     (let s0 = OperationBuilder (FunctionGraph ''h'');
          (entry, s1) = add_block s0 [] None None;
          (left, s2) = add_block s1 [entry] None None;
          (right, s3) = add_block s2 [entry] None None
      in s3)"

text \<open>
  A branch on a lowered condition: the entry block \<open>[x, br]\<close> with two empty
  children.
\<close>

definition graph_branch :: state where
  "graph_branch =
     (let s0 = OperationBuilder (FunctionGraph ''h'');
          (entry, s1) = add_block s0 [] None None;
          (x, s2) = op' s1 (opcode_named ''lt'') [const (PyInt 1), const (PyInt 2)] ''x'';
          (br, s3) = op' s2 (opcode_named ''br'') [Var x] ''br'';
          s4 = block_extend s3 entry [x, br];
          (left, s5) = add_block s4 [entry] None None;
          (right, s6) = add_block s5 [entry] None None
      in s6)"

text \<open>
  A graph whose last block ends in a \<open>ret\<close> and has one child: the entry block
  \<open>[x]\<close> and a second block \<open>[r]\<close>, each the only child of the other.
\<close>

definition graph_ret_loop :: state where
  "graph_ret_loop =
     (let s0 = OperationBuilder (FunctionGraph ''g'');
          (entry, s1) = add_block s0 [] None None;
          (x, s2) = op' s1 opcode_add [const (PyInt 2), const (PyInt 3)] ''x'';
          s3 = block_append s2 entry x;
          (b1, s4) = add_block s3 [entry] None None;
          (r, s5) = op' s4 (opcode_named ''ret'') [Var x] ''r'';
          s6 = block_append s5 b1 r
      in s6\<lparr>block_heap := add_children b1 [entry] (block_heap s6)\<rparr>)"

text \<open>
  Two variables \<open>x\<close> and \<open>y\<close> and two operations that have no result yet:
  \<open>add(x, x)\<close> and \<open>add(x, 1, y)\<close>.
\<close>

definition state_uses :: state where
  "state_uses =
     (let s0 = OperationBuilder (FunctionGraph ''f'');
          (x, s1) = op' s0 opcode_add [const (PyInt 2), const (PyInt 3)] ''x'';
          (y, s2) = op' s1 opcode_add [const (PyInt 1), Var x] ''y'';
          (o2, s3) = Operation s2 opcode_add [Var x, Var x];
          (o3, s4) = Operation s3 opcode_add [Var x, const (PyInt 1), Var y]
      in s4)"

text \<open>The block object \<open>add_block\<close> creates, before any edge is added.\<close>

definition new_block :: "state \<Rightarrow> string option \<Rightarrow> nat option \<Rightarrow> block" where
  "new_block s n p =
     \<lparr>block_id = length (blocks (funcgraph s)),
      label = fst (temper (block_temper s) (name_or_block n)), pos = p,
      parents = [], children = [], block_funcgraph = True, instrs = []\<rparr>"

text \<open>
  A mapper for \<open>state_uses\<close> with one low-level block, the cursor in it, and
  \<open>x\<close> lowered already.
\<close>

definition mapper_uses :: LLVMMapper where
  "mapper_uses =
     (let w = LLVMMapper_init state_uses;
          (l, b) = LLVMBuilder_add_block (llvm w) ''entry'';
          w0 = w\<lparr>llvm := SetInsertPoint b l\<rparr>
      in snd (process_op opctx_by_name 0 w0))"

text \<open>A mapper for \<open>graph_branch\<close>, its blocks allocated.\<close>

definition mapper_branch :: LLVMMapper where
  "mapper_branch =
     allocate_blocks (blocks (funcgraph graph_branch)) (LLVMMapper_init graph_branch)"

text \<open>
  What only the allocation of blocks and the moves of the cursor change in a mapper:
  the graph, the dictionary of blocks, the cursor and the opaque type.
\<close>

definition same_frame :: "LLVMMapper \<Rightarrow> LLVMMapper \<Rightarrow> bool" where
  "same_frame w w' =
     (graph w' = graph w \<and> llvm_blocks w' = llvm_blocks w
      \<and> builder (llvm w') = builder (llvm w) \<and> opague_type (llvm w') = opague_type (llvm w))"

section \<open>The naming service\<close>

lemma of_char_digit: "d < 10 \<Longrightarrow> (of_char (digit d) :: nat) = 48 + d"
proof -
  assume "d < 10"
  then have "d \<in> {0, 1, 2, 3, 4, 5, 6, 7, 8, 9}" by auto
  then show ?thesis by (auto simp: digit_def)
qed

lemma str_nat_value: "foldl (\<lambda>a c. 10 * a + (of_char c - 48)) 0 (str_nat n) = n"
proof (induction n rule: str_nat.induct)
  case (1 n)
  show ?case
  proof (cases "n < 10")
    case True
    then show ?thesis by (simp add: str_nat.simps [of n] of_char_digit)
  next
    case False
    with 1 show ?thesis by (simp add: str_nat.simps [of n] of_char_digit)
  qed
qed

lemma str_nat_inj: "str_nat m = str_nat n \<Longrightarrow> m = n"
  by (metis str_nat_value)

lemma str_nat_0: "str_nat 0 = ''0''"
  by (simp add: str_nat.simps digit_def)

lemma temper_fst:
  "fst (temper t n) =
     (if n \<noteq> [] \<and> t n = 0 then n
      else if n \<noteq> [] then n @ ''_'' @ str_nat (t n) else str_nat (t n))"
  by (simp add: temper_def Let_def)

lemma temper_snd: "snd (temper t n) = t(n := t n + 1)"
  by (simp add: temper_def Let_def)

lemma returned_for_Nil: "returned_for n t [] = []"
  by (simp add: returned_for_def)

lemma returned_for_Cons:
  "returned_for n t (m # ms) =
     (if m = n then [fst (temper t m)] else []) @ returned_for n (snd (temper t m)) ms"
  by (simp add: returned_for_def split: prod.splits)

text \<open>The name a request finds when the counter of its base name is \<open>k\<close>.\<close>

lemma returned_for_eq:
  "returned_for n t ms =
     map (\<lambda>k. fst (temper (\<lambda>x. k) n)) [t n ..< t n + count_list ms n]"
proof (induction ms arbitrary: t)
  case Nil
  show ?case by (simp add: returned_for_Nil)
next
  case (Cons m ms)
  show ?case
  proof (cases "m = n")
    case True
    have "[t n ..< t n + count_list (m # ms) n] =
            t n # [Suc (t n) ..< Suc (t n) + count_list ms n]"
      using True by (simp add: upt_rec)
    then show ?thesis using True
      by (simp add: returned_for_Cons Cons.IH temper_snd temper_fst)
  next
    case False
    then show ?thesis
      by (simp add: returned_for_Cons Cons.IH temper_snd)
  qed
qed

lemma temper_name_inj: "inj (\<lambda>k. fst (temper (\<lambda>x. k) n))"
proof (rule injI)
  fix j k
  assume eq: "fst (temper (\<lambda>x. j) n) = fst (temper (\<lambda>x. k) n)"
  show "j = k"
  proof (cases "n = []")
    case True
    with eq show ?thesis by (simp add: temper_fst str_nat_inj)
  next
    case False
    have ne: "n \<noteq> n @ ''_'' @ str_nat i" for i by simp
    from False eq ne [of j] ne [of k] show ?thesis
      by (auto simp: temper_fst dest: str_nat_inj split: if_splits)
  qed
qed

text \<open>
  C7, amended. Whatever else is requested from a new instance in between, the names
  returned for one base name are pairwise distinct. The first is the base name itself,
  or \<open>0\<close> when the base name is empty. The request that follows \<open>k\<close> earlier ones
  for the same base name returns the base name, an underscore and the decimal \<open>k\<close>
  when the base name is not empty, and the decimal \<open>k\<close> alone, with no underscore,
  when it is empty.
\<close>

theorem temper_same_base_name:
  "distinct (returned_for n make_temper ms)
   \<and> length (returned_for n make_temper ms) = count_list ms n
   \<and> (\<forall>k < count_list ms n.
        returned_for n make_temper ms ! k =
          (if k = 0 then (if n = [] then ''0'' else n)
           else if n = [] then str_nat k
           else n @ ''_'' @ str_nat k))"
proof -
  have eq: "returned_for n make_temper ms =
      map (\<lambda>k. fst (temper (\<lambda>x. k) n)) [0 ..< count_list ms n]"
    using returned_for_eq [of n make_temper ms] by (simp add: make_temper_def)
  have "distinct (returned_for n make_temper ms)"
    unfolding eq using temper_name_inj [of n]
    by (simp add: distinct_map inj_on_def inj_def)
  moreover have "length (returned_for n make_temper ms) = count_list ms n"
    unfolding eq by simp
  moreover have "\<forall>k < count_list ms n.
        returned_for n make_temper ms ! k =
          (if k = 0 then (if n = [] then ''0'' else n)
           else if n = [] then str_nat k
           else n @ ''_'' @ str_nat k)"
    unfolding eq by (simp add: temper_fst str_nat_0)
  ultimately show ?thesis by blast
qed

text \<open>Three requests for \<open>x\<close> and three for the empty name, among others.\<close>

theorem temper_same_base_name_witness:
  "returned_for ''x'' make_temper [''x'', ''y'', ''x'', '''', ''x''] ! 2 = ''x_2''
   \<and> returned_for '''' make_temper ['''', ''y'', '''', ''''] ! 2 = ''2''"
  using temper_same_base_name [of "''x''" "[''x'', ''y'', ''x'', '''', ''x'']"]
    temper_same_base_name [of "''''" "['''', ''y'', '''', '''']"]
  by (simp add: str_nat.simps digit_def)

text \<open>
  C7 as stated fails for the empty base name: its second request returns \<open>1\<close>,
  which is not the empty name followed by an underscore and a number.
\<close>

theorem temper_empty_base_name_counterexample:
  "fst (temper_calls make_temper ['''', '''']) = [''0'', ''1'']
   \<and> \<not> (\<exists>k. fst (temper_calls make_temper ['''', '''']) ! 1 = '''' @ ''_'' @ str_nat k)"
  by (simp add: temper_def make_temper_def Let_def str_nat.simps digit_def)

section \<open>Heap and edge lemmas\<close>

lemma length_upd [simp]: "length (upd r f h) = length h"
  by (simp add: upd_def)

lemma nth_upd: "upd r f h ! i = (if i = r \<and> r < length h then f (h ! i) else h ! i)"
  by (simp add: upd_def)

lemma length_add_edge [simp]: "length (add_edge p c h) = length h"
  by (simp add: add_edge_def)

lemma children_add_edge:
  "children (add_edge p c h ! i) =
     (if i = p \<and> p < length h then insert_ref c (children (h ! i)) else children (h ! i))"
  by (simp add: add_edge_def nth_upd)

lemma instrs_add_edge [simp]: "instrs (add_edge p c h ! i) = instrs (h ! i)"
  by (simp add: add_edge_def nth_upd)

lemma length_add_children [simp]: "length (add_children self cs h) = length h"
  unfolding add_children_def by (induction cs arbitrary: h) simp_all

lemma instrs_add_children [simp]: "instrs (add_children self cs h ! i) = instrs (h ! i)"
  unfolding add_children_def by (induction cs arbitrary: h) simp_all

lemma children_add_children:
  "children (add_children self cs h ! i) =
     (if i = self \<and> self < length h then foldl (\<lambda>a c. insert_ref c a) (children (h ! i)) cs
      else children (h ! i))"
  unfolding add_children_def
  by (induction cs arbitrary: h) (simp_all add: children_add_edge)

lemma set_foldl_insert_ref: "set (foldl (\<lambda>a c. insert_ref c a) xs cs) = set xs \<union> set cs"
  by (induction cs arbitrary: xs) (auto simp: insert_ref_def)

lemma foldl_insert_ref_distinct:
  "distinct (xs @ cs) \<Longrightarrow> foldl (\<lambda>a c. insert_ref c a) xs cs = xs @ cs"
  by (induction cs arbitrary: xs) (auto simp: insert_ref_def)

lemma insert_ref_Nil: "insert_ref r [] = [r]"
  by (simp add: insert_ref_def)

lemma length_detach_loop [simp]:
  "length (foldl (\<lambda>h' c. upd c (g c) h') h cs) = length h"
  by (induction cs arbitrary: h) simp_all

lemma instrs_detach_parents_loop [simp]:
  "instrs (foldl (\<lambda>h' c. upd c (\<lambda>b. b\<lparr>parents := g (parents b)\<rparr>) h') h cs ! i) = instrs (h ! i)"
  by (induction cs arbitrary: h) (simp_all add: nth_upd)

lemma children_detach_parents_loop [simp]:
  "children (foldl (\<lambda>h' c. upd c (\<lambda>b. b\<lparr>parents := g (parents b)\<rparr>) h') h cs ! i) = children (h ! i)"
  by (induction cs arbitrary: h) (simp_all add: nth_upd)

lemma length_detach_children [simp]: "length (detach_children self h) = length h"
  by (simp add: detach_children_def)

lemma instrs_detach_children [simp]: "instrs (detach_children self h ! i) = instrs (h ! i)"
  by (simp add: detach_children_def nth_upd)

lemma children_detach_children:
  "children (detach_children self h ! i) =
     (if i = self \<and> self < length h then [] else children (h ! i))"
  by (simp add: detach_children_def nth_upd)

lemma index_split:
  "x \<in> set xs \<Longrightarrow>
     \<exists>i. index xs x = Some i \<and> take i xs = takeWhile (\<lambda>y. y \<noteq> x) xs
        \<and> drop i xs = dropWhile (\<lambda>y. y \<noteq> x) xs"
  by (induction xs) auto

lemma add_block_one_parent:
  "add_block s [p] n q =
     (length (block_heap s),
      s\<lparr>block_temper := snd (temper (block_temper s) (name_or_block n)),
        funcgraph := (funcgraph s)\<lparr>blocks := blocks (funcgraph s) @ [length (block_heap s)]\<rparr>,
        block_heap := add_edge p (length (block_heap s))
           (block_heap s @
             [\<lparr>block_id = length (blocks (funcgraph s)),
               label = fst (temper (block_temper s) (name_or_block n)), pos = q,
               parents = [], children = [], block_funcgraph = True, instrs = []\<rparr>])\<rparr>)"
  by (simp add: add_block_def add_parents_def Let_def split: prod.splits)

text \<open>
  C3. For a block \<open>b\<close> of the heap and an instruction among its instructions,
  \<open>splitblock\<close> returns a block \<open>b2\<close>; afterwards the instructions of \<open>b\<close>
  followed by those of \<open>b2\<close> are the instructions \<open>b\<close> had, \<open>b\<close> keeps those
  before the first occurrence of the instruction and \<open>b2\<close> has the rest, from the
  instruction on; the children of \<open>b2\<close> are the children \<open>b\<close> had (as a set,
  and in the same order when \<open>b\<close> had each once); and \<open>b2\<close> is the only child of
  \<open>b\<close>.
\<close>

theorem splitblock_split:
  assumes b: "block < length (block_heap s)"
    and i: "instr \<in> set (instrs (block_heap s ! block))"
  shows "\<exists>b2 s'. splitblock s block instr n = Inr (b2, s')
      \<and> instrs (block_heap s' ! block) @ instrs (block_heap s' ! b2) = instrs (block_heap s ! block)
      \<and> instrs (block_heap s' ! block) = takeWhile (\<lambda>x. x \<noteq> instr) (instrs (block_heap s ! block))
      \<and> instrs (block_heap s' ! b2) = dropWhile (\<lambda>x. x \<noteq> instr) (instrs (block_heap s ! block))
      \<and> set (children (block_heap s' ! b2)) = set (children (block_heap s ! block))
      \<and> (if distinct (children (block_heap s ! block))
          then children (block_heap s' ! b2) = children (block_heap s ! block) else True)
      \<and> children (block_heap s' ! block) = [b2]"
proof -
  from index_split [OF i] obtain k where
    k: "index (instrs (block_heap s ! block)) instr = Some k"
    and tk: "take k (instrs (block_heap s ! block)) = takeWhile (\<lambda>y. y \<noteq> instr) (instrs (block_heap s ! block))"
    and dk: "drop k (instrs (block_heap s ! block)) = dropWhile (\<lambda>y. y \<noteq> instr) (instrs (block_heap s ! block))"
    by blast
  show ?thesis
    using b k tk dk
    by (simp add: splitblock_def add_block_one_parent Let_def nth_upd nth_append
        children_add_children children_add_edge children_detach_children
        set_foldl_insert_ref foldl_insert_ref_distinct insert_ref_Nil)
qed

text \<open>What the example graphs are, once built.\<close>

lemmas builder_defs =
  OperationBuilder_def FunctionGraph_def add_block_def op'_def Operation_def
  create_variable_def block_append_def block_extend_def upd_def temper_def make_temper_def
  name_or_block_def add_parents_def add_children_def add_edge_def insert_ref_def const_def
  opcode_add_def opcode_named_def Let_def

lemma block_heap_graph_xbr:
  "block_heap graph_xbr =
     [\<lparr>block_id = 0, label = ''block'', pos = None, parents = [], children = [],
       block_funcgraph = True, instrs = [0, 1]\<rparr>]"
  by (simp add: graph_xbr_def builder_defs)

text \<open>The entry block \<open>[x, br]\<close> split at \<open>br\<close>.\<close>

theorem splitblock_split_witness:
  "0 < length (block_heap graph_xbr) \<and> 1 \<in> set (instrs (block_heap graph_xbr ! 0))
   \<and> (\<exists>b2 s'. splitblock graph_xbr 0 1 None = Inr (b2, s')
         \<and> instrs (block_heap s' ! 0) = [0] \<and> instrs (block_heap s' ! b2) = [1]
         \<and> children (block_heap s' ! b2) = [] \<and> children (block_heap s' ! 0) = [b2])"
proof -
  have h1: "0 < length (block_heap graph_xbr)"
    and h2: "1 \<in> set (instrs (block_heap graph_xbr ! 0))"
    by (simp_all add: block_heap_graph_xbr)
  from splitblock_split [OF h1 h2, of None] obtain b2 s' where
    "splitblock graph_xbr 0 1 None = Inr (b2, s')"
    "instrs (block_heap s' ! 0) = takeWhile (\<lambda>x. x \<noteq> 1) (instrs (block_heap graph_xbr ! 0))"
    "instrs (block_heap s' ! b2) = dropWhile (\<lambda>x. x \<noteq> 1) (instrs (block_heap graph_xbr ! 0))"
    "set (children (block_heap s' ! b2)) = set (children (block_heap graph_xbr ! 0))"
    "children (block_heap s' ! 0) = [b2]"
    by blast
  then show ?thesis using h1 h2
    by (simp add: block_heap_graph_xbr)
qed

section \<open>Variables and their uses\<close>

lemma uses_loop:
  "a < length h \<Longrightarrow>
   uses (foldl (\<lambda>h x. case x of
                   Var v \<Rightarrow> upd v (\<lambda>y. y\<lparr>uses := uses y @ [var]\<rparr>) h
                 | Const c t \<Rightarrow> h) h as ! a) =
     uses (h ! a) @ replicate (count_list as (Var a)) var"
proof (induction as arbitrary: h)
  case Nil
  show ?case by simp
next
  case (Cons x as)
  show ?case
  proof (cases x)
    case (Var v)
    with Cons.prems show ?thesis
      by (simp add: Cons.IH nth_upd replicate_append_same)
  next
    case (Const c t)
    with Cons.prems show ?thesis
      by (simp add: Cons.IH)
  qed
qed

lemma operation_uses_loop:
  "operation (foldl (\<lambda>h x. case x of
                   Var v \<Rightarrow> upd v (\<lambda>y. y\<lparr>uses := uses y @ [var]\<rparr>) h
                 | Const c t \<Rightarrow> h) h as ! k) = operation (h ! k)"
  by (induction as arbitrary: h) (simp_all add: nth_upd split: arg.splits)

lemma count_list_replicate: "count_list (replicate k v) v = k"
  by (induction k) simp_all

lemma count_list_append_replicate:
  "count_list (xs @ replicate k v) v = count_list xs v + k"
  by (induction xs) (simp_all add: count_list_replicate)

lemma count_list_absent: "x \<notin> set xs \<Longrightarrow> count_list xs x = 0"
  by (simp add: count_list_0_iff)

text \<open>
  C6, amended. Let \<open>v\<close> be the variable \<open>create_variable\<close> makes for an operation,
  and \<open>a\<close> an existing variable whose use list does not hold the new object yet.
  Afterwards \<open>v\<close> occurs in the use list of \<open>a\<close> as many times as \<open>a\<close> occurs
  among the arguments of the operation: once for an argument that occurs once, never
  for a variable that is no argument. The operation is the defining operation of
  \<open>v\<close>, keeps its arguments, and has \<open>v\<close> as its result.
\<close>

theorem create_variable_uses:
  assumes a: "a < length (var_heap s)"
    and new: "length (var_heap s) \<notin> set (uses (var_heap s ! a))"
  shows "count_list (uses (var_heap (snd (create_variable s operation' n)) ! a))
           (fst (create_variable s operation' n))
         = count_list (args (op_heap s ! operation')) (Var a)
       \<and> operation (var_heap (snd (create_variable s operation' n)) !
            fst (create_variable s operation' n)) = operation'
       \<and> args (op_heap (snd (create_variable s operation' n)) ! operation')
            = args (op_heap s ! operation')
       \<and> (if operation' < length (op_heap s)
           then result (op_heap (snd (create_variable s operation' n)) ! operation')
                  = Some (fst (create_variable s operation' n))
           else True)"
proof -
  have len: "a < length (var_heap s @ [v])" for v using a by simp
  have argsu: "args (upd operation' (\<lambda>x. x\<lparr>result := Some r\<rparr>) (op_heap s) ! operation')
      = args (op_heap s ! operation')" for r
    by (simp add: nth_upd)
  show ?thesis
    using a new
    by (simp add: create_variable_def Let_def split_beta uses_loop [OF len] argsu nth_append
        count_list_append_replicate count_list_absent nth_upd operation_uses_loop
        count_list_replicate)
qed

lemma var_heap_state_uses:
  "var_heap state_uses =
     [\<lparr>name = ''x'', operation = 0, vtype = None, uses = [1]\<rparr>,
      \<lparr>name = ''y'', operation = 1, vtype = None, uses = []\<rparr>]"
  by (simp add: state_uses_def builder_defs)

lemma op_heap_state_uses:
  "map args (op_heap state_uses) =
     [[Const (PyInt 2) None, Const (PyInt 3) None],
      [Const (PyInt 1) None, Var 0],
      [Var 0, Var 0],
      [Var 0, Const (PyInt 1) None, Var 1]]"
  by (simp add: state_uses_def builder_defs)

text \<open>
  For \<open>add(x, 1, y)\<close> the new variable is in the uses of \<open>x\<close> once, for
  \<open>add(x, x)\<close> twice.
\<close>

theorem create_variable_uses_witness:
  "0 < length (var_heap state_uses)
   \<and> length (var_heap state_uses) \<notin> set (uses (var_heap state_uses ! 0))
   \<and> count_list (uses (var_heap (snd (create_variable state_uses 3 ''v'')) ! 0))
        (fst (create_variable state_uses 3 ''v'')) = 1
   \<and> count_list (uses (var_heap (snd (create_variable state_uses 2 ''v'')) ! 0))
        (fst (create_variable state_uses 2 ''v'')) = 2"
proof -
  have h1: "0 < length (var_heap state_uses)"
    and h2: "length (var_heap state_uses) \<notin> set (uses (var_heap state_uses ! 0))"
    by (simp_all add: var_heap_state_uses)
  have len: "length (op_heap state_uses) = 4"
    using arg_cong [OF op_heap_state_uses, of length] by simp
  have a3: "args (op_heap state_uses ! 3) = [Var 0, Const (PyInt 1) None, Var 1]"
    and a2: "args (op_heap state_uses ! 2) = [Var 0, Var 0]"
    using arg_cong [OF op_heap_state_uses, of "\<lambda>xs. xs ! 3"]
      arg_cong [OF op_heap_state_uses, of "\<lambda>xs. xs ! 2"] len
    by simp_all
  from create_variable_uses [OF h1 h2, of 3 "''v''"] create_variable_uses [OF h1 h2, of 2 "''v''"]
  show ?thesis using h1 h2 by (simp add: a3 a2)
qed

text \<open>
  C6 as stated fails for an operation that takes one variable twice: the variable made
  for \<open>add(x, x)\<close> is appended to the uses of \<open>x\<close> once for each occurrence.
\<close>

theorem create_variable_repeated_argument_counterexample:
  "Var 0 \<in> set (args (op_heap state_uses ! 2))
   \<and> fst (create_variable state_uses 2 ''v'') = 2
   \<and> uses (var_heap (snd (create_variable state_uses 2 ''v'')) ! 0) = [1, 2, 2]
   \<and> count_list (uses (var_heap (snd (create_variable state_uses 2 ''v'')) ! 0))
        (fst (create_variable state_uses 2 ''v'')) = 2"
proof -
  have len: "length (op_heap state_uses) = 4"
    using arg_cong [OF op_heap_state_uses, of length] by simp
  have a2: "args (op_heap state_uses ! 2) = [Var 0, Var 0]"
    using arg_cong [OF op_heap_state_uses, of "\<lambda>xs. xs ! 2"] len by simp
  show ?thesis
    by (simp add: create_variable_def Let_def split_beta var_heap_state_uses a2 len nth_upd upd_def)
qed

lemma label_add_parents_loop [simp]:
  "label (foldl (\<lambda>h parent. add_parents b [parent] h) h ps ! i) = label (h ! i)"
  by (induction ps arbitrary: h) (simp_all add: add_parents_def add_edge_def nth_upd)

lemma length_add_parents_loop [simp]:
  "length (foldl (\<lambda>h parent. add_parents b [parent] h) h ps) = length h"
  by (induction ps arbitrary: h) (simp_all add: add_parents_def)

lemma name_uses_loop:
  "name (foldl (\<lambda>h x. case x of
                   Var v \<Rightarrow> upd v (\<lambda>y. y\<lparr>uses := uses y @ [var]\<rparr>) h
                 | Const c t \<Rightarrow> h) h as ! k) = name (h ! k)"
  by (induction as arbitrary: h) (simp_all add: nth_upd split: arg.splits)

text \<open>
  C8, amended. The label \<open>add_block\<close> gives a block is what the builder's own
  naming service \<open>block_temper\<close> returns for the requested name (or \<open>block\<close>),
  and the request advances that service; the naming service of the graph is not
  consulted and not changed. \<open>create_variable\<close> takes the name of the variable from
  the same \<open>block_temper\<close> and advances it as well, so a request for a variable name
  moves the counter that later block labels of that base name are drawn from.
\<close>

theorem names_from_block_temper:
  "label (block_heap (snd (add_block s ps n p)) ! fst (add_block s ps n p))
     = fst (temper (block_temper s) (name_or_block n))
   \<and> block_temper (snd (add_block s ps n p)) = snd (temper (block_temper s) (name_or_block n))
   \<and> fg_temper (funcgraph (snd (add_block s ps n p))) = fg_temper (funcgraph s)
   \<and> name (var_heap (snd (create_variable s operation' m)) ! fst (create_variable s operation' m))
     = fst (temper (block_temper s) m)
   \<and> block_temper (snd (create_variable s operation' m)) = snd (temper (block_temper s) m)
   \<and> fg_temper (funcgraph (snd (create_variable s operation' m))) = fg_temper (funcgraph s)"
  by (simp add: add_block_def create_variable_def Let_def split_beta name_uses_loop)

text \<open>
  C8 as stated fails: in a new builder the first block is labelled \<open>block\<close>, but
  after one variable has been named \<open>block\<close> the first block is labelled
  \<open>block_1\<close>.
\<close>

theorem variable_name_changes_block_label_counterexample:
  "label (block_heap (snd (add_block (OperationBuilder (FunctionGraph ''f'')) [] None None)) !
      fst (add_block (OperationBuilder (FunctionGraph ''f'')) [] None None)) = ''block''
   \<and> label (block_heap (snd (add_block
        (snd (op' (OperationBuilder (FunctionGraph ''f'')) opcode_add [] ''block'')) [] None None)) !
      fst (add_block
        (snd (op' (OperationBuilder (FunctionGraph ''f'')) opcode_add [] ''block'')) [] None None))
     = ''block_1''"
  by (simp add: builder_defs str_nat.simps digit_def)

section \<open>Edits of the graph, step by step\<close>

lemma blocks_graph_xbr: "blocks (funcgraph graph_xbr) = [0]"
  by (simp add: graph_xbr_def builder_defs)

text \<open>What one call does to the heap of blocks and to the list of the graph.\<close>

lemma add_block_fst: "fst (add_block s ps n p) = length (block_heap s)"
  by (simp add: add_block_def Let_def split_beta)

lemma add_block_heap:
  "block_heap (snd (add_block s ps n p)) =
     foldl (\<lambda>h parent. add_parents (length (block_heap s)) [parent] h)
       (block_heap s @ [new_block s n p]) ps"
  by (simp add: add_block_def Let_def split_beta new_block_def)

lemma add_block_blocks:
  "blocks (funcgraph (snd (add_block s ps n p))) = blocks (funcgraph s) @ [length (block_heap s)]"
  by (simp add: add_block_def Let_def split_beta)

lemma splitblock_effect:
  assumes "index (instrs (block_heap s ! b)) i = Some k" and "b < length (block_heap s)"
  shows "\<exists>s'. splitblock s b i n = Inr (length (block_heap s), s')
     \<and> block_heap s' =
         upd (length (block_heap s)) (\<lambda>x. x\<lparr>instrs := drop k (instrs (block_heap s ! b))\<rparr>)
           (upd b (\<lambda>x. x\<lparr>instrs := take k (instrs (block_heap s ! b))\<rparr>)
             (add_children (length (block_heap s)) (children (block_heap s ! b))
               (add_edge b (length (block_heap s))
                 (detach_children b (block_heap s) @
                    [new_block (s\<lparr>block_heap := detach_children b (block_heap s)\<rparr>) n None]))))
     \<and> blocks (funcgraph s') = blocks (funcgraph s) @ [length (block_heap s)]"
  using assms
  by (simp add: splitblock_def add_block_one_parent Let_def new_block_def nth_append)

lemmas heap_defs =
  add_parents_def add_children_def add_edge_def detach_children_def detach_parents_def
  insert_ref_def upd_def new_block_def

text \<open>
  \<open>if_then_else\<close> on the entry block \<open>[x, br]\<close> of \<open>graph_xbr\<close>, split at
  \<open>br\<close> with the condition \<open>c\<close> and the body \<open>[y]\<close>: the state when the
  first arm has been filled, and what remains to be done for either kind of else body.
\<close>

lemma if_then_else_graph_xbr_arms:
  "\<exists>s6 L1 L2 L3.
      block_heap s6 =
        [\<lparr>block_id = 0, label = ''block'', pos = None, parents = [], children = [],
          block_funcgraph = True, instrs = [0]\<rparr>,
         \<lparr>block_id = 1, label = L1, pos = None, parents = [2], children = [3],
          block_funcgraph = True, instrs = [2]\<rparr>,
         \<lparr>block_id = 2, label = L2, pos = None, parents = [], children = [1],
          block_funcgraph = True, instrs = [1]\<rparr>,
         \<lparr>block_id = 3, label = L3, pos = None, parents = [1], children = [],
          block_funcgraph = True, instrs = [3]\<rparr>]
    \<and> blocks (funcgraph s6) = [0, 1, 2, 3]
    \<and> (\<forall>else_body. if_then_else graph_xbr 0 1 2 [3] else_body =
          (case (case else_body of
                   Some (i # is) \<Rightarrow>
                     (let (e, s7) = add_block s6 [1] None None
                      in (e, s7\<lparr>block_heap :=
                                  upd e (\<lambda>b. b\<lparr>instrs := i # is\<rparr>) (block_heap s7)\<rparr>))
                 | _ \<Rightarrow> (1, s6)) of
             (else_block', s8) \<Rightarrow>
               Inr (\<lparr>cond_block = 1, exit_block = 2, if_block = 3, else_block = else_block'\<rparr>,
                    s8\<lparr>block_heap := add_parents 2 [3, else_block'] (block_heap s8)\<rparr>)))"
proof -
  define s1 where "s1 = snd (add_block graph_xbr [0] None None)"
  have e1: "add_block graph_xbr [0] None None = (1, s1)"
    by (simp add: s1_def prod_eq_iff add_block_fst block_heap_graph_xbr)
  obtain L1 where h1: "block_heap s1 =
      [\<lparr>block_id = 0, label = ''block'', pos = None, parents = [], children = [1],
        block_funcgraph = True, instrs = [0, 1]\<rparr>,
       \<lparr>block_id = 1, label = L1, pos = None, parents = [0], children = [],
        block_funcgraph = True, instrs = []\<rparr>]"
    by (simp add: s1_def add_block_heap block_heap_graph_xbr blocks_graph_xbr heap_defs)
  have b1: "blocks (funcgraph s1) = [0, 1]"
    by (simp add: s1_def add_block_blocks block_heap_graph_xbr blocks_graph_xbr)
  define s2 where "s2 = block_append s1 1 2"
  have h2: "block_heap s2 =
      [\<lparr>block_id = 0, label = ''block'', pos = None, parents = [], children = [1],
        block_funcgraph = True, instrs = [0, 1]\<rparr>,
       \<lparr>block_id = 1, label = L1, pos = None, parents = [0], children = [],
        block_funcgraph = True, instrs = [2]\<rparr>]"
    by (simp add: s2_def block_append_def h1 upd_def)
  have b2: "blocks (funcgraph s2) = [0, 1]"
    by (simp add: s2_def block_append_def b1)
  have i2: "index (instrs (block_heap s2 ! 0)) 1 = Some 1" and v2: "0 < length (block_heap s2)"
    by (simp_all add: h2)
  from splitblock_effect [OF i2 v2, of None] obtain s3 where
    e3: "splitblock s2 0 1 None = Inr (length (block_heap s2), s3)"
    and h3': "block_heap s3 =
         upd (length (block_heap s2)) (\<lambda>x. x\<lparr>instrs := drop 1 (instrs (block_heap s2 ! 0))\<rparr>)
           (upd 0 (\<lambda>x. x\<lparr>instrs := take 1 (instrs (block_heap s2 ! 0))\<rparr>)
             (add_children (length (block_heap s2)) (children (block_heap s2 ! 0))
               (add_edge 0 (length (block_heap s2))
                 (detach_children 0 (block_heap s2) @
                    [new_block (s2\<lparr>block_heap := detach_children 0 (block_heap s2)\<rparr>) None None]))))"
    and b3': "blocks (funcgraph s3) = blocks (funcgraph s2) @ [length (block_heap s2)]"
    by blast
  have e3'': "splitblock s2 0 1 None = Inr (2, s3)"
    using e3 by (simp add: h2)
  obtain L2 where h3: "block_heap s3 =
      [\<lparr>block_id = 0, label = ''block'', pos = None, parents = [], children = [2],
        block_funcgraph = True, instrs = [0]\<rparr>,
       \<lparr>block_id = 1, label = L1, pos = None, parents = [2], children = [],
        block_funcgraph = True, instrs = [2]\<rparr>,
       \<lparr>block_id = 2, label = L2, pos = None, parents = [0], children = [1],
        block_funcgraph = True, instrs = [1]\<rparr>]"
    unfolding h3' by (simp add: h2 b2 heap_defs)
  have b3: "blocks (funcgraph s3) = [0, 1, 2]"
    using b3' by (simp add: b2 h2)
  define s4 where "s4 = s3\<lparr>block_heap := detach_parents 2 (block_heap s3)\<rparr>"
  have h4: "block_heap s4 =
      [\<lparr>block_id = 0, label = ''block'', pos = None, parents = [], children = [],
        block_funcgraph = True, instrs = [0]\<rparr>,
       \<lparr>block_id = 1, label = L1, pos = None, parents = [2], children = [],
        block_funcgraph = True, instrs = [2]\<rparr>,
       \<lparr>block_id = 2, label = L2, pos = None, parents = [], children = [1],
        block_funcgraph = True, instrs = [1]\<rparr>]"
    by (simp add: s4_def h3 heap_defs)
  have b4: "blocks (funcgraph s4) = [0, 1, 2]"
    by (simp add: s4_def b3)
  define s5 where "s5 = snd (add_block s4 [1] None None)"
  have e5: "add_block s4 [1] None None = (3, s5)"
    by (simp add: s5_def prod_eq_iff add_block_fst h4)
  obtain L3 where h5: "block_heap s5 =
      [\<lparr>block_id = 0, label = ''block'', pos = None, parents = [], children = [],
        block_funcgraph = True, instrs = [0]\<rparr>,
       \<lparr>block_id = 1, label = L1, pos = None, parents = [2], children = [3],
        block_funcgraph = True, instrs = [2]\<rparr>,
       \<lparr>block_id = 2, label = L2, pos = None, parents = [], children = [1],
        block_funcgraph = True, instrs = [1]\<rparr>,
       \<lparr>block_id = 3, label = L3, pos = None, parents = [1], children = [],
        block_funcgraph = True, instrs = []\<rparr>]"
    by (simp add: s5_def add_block_heap h4 b4 heap_defs)
  have b5: "blocks (funcgraph s5) = [0, 1, 2, 3]"
    by (simp add: s5_def add_block_blocks h4 b4)
  define s6 where "s6 = s5\<lparr>block_heap := upd 3 (\<lambda>b. b\<lparr>instrs := [3]\<rparr>) (block_heap s5)\<rparr>"
  have h6: "block_heap s6 =
      [\<lparr>block_id = 0, label = ''block'', pos = None, parents = [], children = [],
        block_funcgraph = True, instrs = [0]\<rparr>,
       \<lparr>block_id = 1, label = L1, pos = None, parents = [2], children = [3],
        block_funcgraph = True, instrs = [2]\<rparr>,
       \<lparr>block_id = 2, label = L2, pos = None, parents = [], children = [1],
        block_funcgraph = True, instrs = [1]\<rparr>,
       \<lparr>block_id = 3, label = L3, pos = None, parents = [1], children = [],
        block_funcgraph = True, instrs = [3]\<rparr>]"
    by (simp add: s6_def h5 upd_def)
  have b6: "blocks (funcgraph s6) = [0, 1, 2, 3]"
    by (simp add: s6_def b5)
  have "if_then_else graph_xbr 0 1 2 [3] else_body =
          (case (case else_body of
                   Some (i # is) \<Rightarrow>
                     (let (e, s7) = add_block s6 [1] None None
                      in (e, s7\<lparr>block_heap :=
                                  upd e (\<lambda>b. b\<lparr>instrs := i # is\<rparr>) (block_heap s7)\<rparr>))
                 | _ \<Rightarrow> (1, s6)) of
             (else_block', s8) \<Rightarrow>
               Inr (\<lparr>cond_block = 1, exit_block = 2, if_block = 3, else_block = else_block'\<rparr>,
                    s8\<lparr>block_heap := add_parents 2 [3, else_block'] (block_heap s8)\<rparr>))"
    for else_body
    unfolding if_then_else_def
    by (simp only: e1 Let_def prod.case s2_def [symmetric] e3'' sum.case s4_def [symmetric] e5
        s6_def [symmetric])
  with h6 b6 show ?thesis by blast
qed

text \<open>
  C2, on the entry block \<open>[x, br]\<close> split at \<open>br\<close>, with the condition
  \<open>c\<close> and one instruction for each arm, and then with no else body.
  \<open>cond_block\<close> is made a child of the block before \<open>splitblock\<close> detaches the
  children of the block and hands them to \<open>exit_block\<close>. Afterwards the block has no
  child at all, the only parent of \<open>cond_block\<close> is \<open>exit_block\<close>, and
  \<open>exit_block\<close> has \<open>cond_block\<close> as a child, which the block never had. The arms
  are children of \<open>cond_block\<close>, \<open>exit_block\<close> is a child of both arms, and its
  instructions are those from \<open>br\<close> on. With no else body the children of
  \<open>cond_block\<close> are \<open>if_block\<close> and \<open>exit_block\<close>.
\<close>

theorem if_then_else_shape_evaluated:
  "(\<exists>s'. if_then_else graph_xbr 0 1 2 [3] (Some [4])
         = Inr (\<lparr>cond_block = 1, exit_block = 2, if_block = 3, else_block = 4\<rparr>, s')
      \<and> map children (block_heap s') = [[], [3, 4], [1], [2], [2]]
      \<and> map parents (block_heap s') = [[], [2], [3, 4], [1], [1]]
      \<and> map instrs (block_heap s') = [[0], [2], [1], [3], [4]]
      \<and> blocks (funcgraph s') = [0, 1, 2, 3, 4])
   \<and> (\<exists>s'. if_then_else graph_xbr 0 1 2 [3] None
         = Inr (\<lparr>cond_block = 1, exit_block = 2, if_block = 3, else_block = 1\<rparr>, s')
      \<and> map children (block_heap s') = [[], [3, 2], [1], [2]]
      \<and> map parents (block_heap s') = [[], [2], [3, 1], [1]]
      \<and> map instrs (block_heap s') = [[0], [2], [1], [3]]
      \<and> blocks (funcgraph s') = [0, 1, 2, 3])"
proof -
  from if_then_else_graph_xbr_arms obtain s6 L1 L2 L3 where
    h6: "block_heap s6 =
        [\<lparr>block_id = 0, label = ''block'', pos = None, parents = [], children = [],
          block_funcgraph = True, instrs = [0]\<rparr>,
         \<lparr>block_id = 1, label = L1, pos = None, parents = [2], children = [3],
          block_funcgraph = True, instrs = [2]\<rparr>,
         \<lparr>block_id = 2, label = L2, pos = None, parents = [], children = [1],
          block_funcgraph = True, instrs = [1]\<rparr>,
         \<lparr>block_id = 3, label = L3, pos = None, parents = [1], children = [],
          block_funcgraph = True, instrs = [3]\<rparr>]"
    and b6: "blocks (funcgraph s6) = [0, 1, 2, 3]"
    and ite: "\<And>else_body. if_then_else graph_xbr 0 1 2 [3] else_body =
          (case (case else_body of
                   Some (i # is) \<Rightarrow>
                     (let (e, s7) = add_block s6 [1] None None
                      in (e, s7\<lparr>block_heap :=
                                  upd e (\<lambda>b. b\<lparr>instrs := i # is\<rparr>) (block_heap s7)\<rparr>))
                 | _ \<Rightarrow> (1, s6)) of
             (else_block', s8) \<Rightarrow>
               Inr (\<lparr>cond_block = 1, exit_block = 2, if_block = 3, else_block = else_block'\<rparr>,
                    s8\<lparr>block_heap := add_parents 2 [3, else_block'] (block_heap s8)\<rparr>))"
    by blast
  define s7 where "s7 = snd (add_block s6 [1] None None)"
  have e7: "add_block s6 [1] None None = (4, s7)"
    by (simp add: s7_def prod_eq_iff add_block_fst h6)
  obtain L4 where h7: "block_heap s7 =
      [\<lparr>block_id = 0, label = ''block'', pos = None, parents = [], children = [],
        block_funcgraph = True, instrs = [0]\<rparr>,
       \<lparr>block_id = 1, label = L1, pos = None, parents = [2], children = [3, 4],
        block_funcgraph = True, instrs = [2]\<rparr>,
       \<lparr>block_id = 2, label = L2, pos = None, parents = [], children = [1],
        block_funcgraph = True, instrs = [1]\<rparr>,
       \<lparr>block_id = 3, label = L3, pos = None, parents = [1], children = [],
        block_funcgraph = True, instrs = [3]\<rparr>,
       \<lparr>block_id = 4, label = L4, pos = None, parents = [1], children = [],
        block_funcgraph = True, instrs = []\<rparr>]"
    by (simp add: s7_def add_block_heap h6 b6 heap_defs)
  have b7: "blocks (funcgraph s7) = [0, 1, 2, 3, 4]"
    by (simp add: s7_def add_block_blocks h6 b6)
  define s8 where "s8 = s7\<lparr>block_heap := upd 4 (\<lambda>b. b\<lparr>instrs := [4]\<rparr>) (block_heap s7)\<rparr>"
  define s9 where "s9 = s8\<lparr>block_heap := add_parents 2 [3, 4] (block_heap s8)\<rparr>"
  have h9: "map children (block_heap s9) = [[], [3, 4], [1], [2], [2]]"
    "map parents (block_heap s9) = [[], [2], [3, 4], [1], [1]]"
    "map instrs (block_heap s9) = [[0], [2], [1], [3], [4]]"
    "blocks (funcgraph s9) = [0, 1, 2, 3, 4]"
    by (simp_all add: s9_def s8_def h7 b7 heap_defs)
  have r9: "if_then_else graph_xbr 0 1 2 [3] (Some [4])
         = Inr (\<lparr>cond_block = 1, exit_block = 2, if_block = 3, else_block = 4\<rparr>, s9)"
    unfolding ite
    by (simp only: option.case list.case e7 Let_def prod.case s8_def [symmetric]
        s9_def [symmetric])
  define t where "t = s6\<lparr>block_heap := add_parents 2 [3, 1] (block_heap s6)\<rparr>"
  have ht: "map children (block_heap t) = [[], [3, 2], [1], [2]]"
    "map parents (block_heap t) = [[], [2], [3, 1], [1]]"
    "map instrs (block_heap t) = [[0], [2], [1], [3]]"
    "blocks (funcgraph t) = [0, 1, 2, 3]"
    by (simp_all add: t_def h6 b6 heap_defs)
  have rt: "if_then_else graph_xbr 0 1 2 [3] None
         = Inr (\<lparr>cond_block = 1, exit_block = 2, if_block = 3, else_block = 1\<rparr>, t)"
    unfolding ite by (simp only: option.case prod.case t_def [symmetric])
  have with_else: "\<exists>s'. if_then_else graph_xbr 0 1 2 [3] (Some [4])
         = Inr (\<lparr>cond_block = 1, exit_block = 2, if_block = 3, else_block = 4\<rparr>, s')
      \<and> map children (block_heap s') = [[], [3, 4], [1], [2], [2]]
      \<and> map parents (block_heap s') = [[], [2], [3, 4], [1], [1]]
      \<and> map instrs (block_heap s') = [[0], [2], [1], [3], [4]]
      \<and> blocks (funcgraph s') = [0, 1, 2, 3, 4]"
    using r9 h9 by (intro exI [of _ s9]) simp
  have no_else: "\<exists>s'. if_then_else graph_xbr 0 1 2 [3] None
         = Inr (\<lparr>cond_block = 1, exit_block = 2, if_block = 3, else_block = 1\<rparr>, s')
      \<and> map children (block_heap s') = [[], [3, 2], [1], [2]]
      \<and> map parents (block_heap s') = [[], [2], [3, 1], [1]]
      \<and> map instrs (block_heap s') = [[0], [2], [1], [3]]
      \<and> blocks (funcgraph s') = [0, 1, 2, 3]"
    using rt ht by (intro exI [of _ t]) simp
  from with_else no_else show ?thesis by (rule conjI)
qed

section \<open>What the lowering leaves untouched\<close>

lemma emit_cases:
  "emit b i = Inr b' \<Longrightarrow>
     \<exists>l. builder b = Some l \<and> l < length (lblocks (lfunc b))
       \<and> b' = b\<lparr>lfunc := (lfunc b)\<lparr>lblocks :=
                 upd l (\<lambda>x. x\<lparr>linstrs := linstrs x @ [i]\<rparr>) (lblocks (lfunc b))\<rparr>\<rparr>"
  by (auto simp: emit_def split: option.splits if_splits)

lemma emit_frame:
  "emit b i = Inr b' \<Longrightarrow> builder b' = builder b \<and> opague_type b' = opague_type b"
  by (auto dest: emit_cases)

lemma call_abstract_frame:
  "call_abstract b n t as = Inr (v, b') \<Longrightarrow>
     builder b' = builder b \<and> opague_type b' = opague_type b"
  by (auto simp: call_abstract_def CreateCall_def Let_def split: sum.splits dest: emit_frame)

lemma same_frame_refl [simp]: "same_frame w w"
  by (simp add: same_frame_def)

lemma same_frame_trans: "same_frame w w1 \<Longrightarrow> same_frame w1 w2 \<Longrightarrow> same_frame w w2"
  by (simp add: same_frame_def)

lemma llvm_operation_frame:
  "llvm_operation opctx x as w = (r, w') \<Longrightarrow> same_frame w w' \<and> llvm_values w' = llvm_values w"
  by (auto simp: llvm_operation_def same_frame_def Let_def split: sum.splits prod.splits
      dest: call_abstract_frame)

lemma process_op_frame: "process_op opctx v w = (r, w') \<Longrightarrow> same_frame w w'"
  by (auto simp: process_op_def same_frame_def Let_def split: sum.splits prod.splits
      dest: llvm_operation_frame)

lemma process_ops_frame: "process_ops opctx vs w = (r, w') \<Longrightarrow> same_frame w w'"
proof (induction vs arbitrary: w)
  case Nil
  then show ?case by simp
next
  case (Cons v vs)
  then show ?case
    by (auto split: sum.splits prod.splits dest: process_op_frame intro: same_frame_trans)
qed

lemma terminate_block_graph: "terminate_block opctx b w = (r, w') \<Longrightarrow> graph w' = graph w"
  by (auto simp: terminate_block_def Let_def split: sum.splits if_splits)

lemma emit_block_graph: "emit_block opctx b w = (r, w') \<Longrightarrow> graph w' = graph w"
  unfolding emit_block_def Let_def
  by (auto simp: same_frame_def split: sum.splits prod.splits if_splits
      dest!: process_ops_frame process_op_frame terminate_block_graph)

lemma emit_blocks_graph: "emit_blocks opctx bs w = (r, w') \<Longrightarrow> graph w' = graph w"
proof (induction bs arbitrary: w)
  case Nil
  then show ?case by simp
next
  case (Cons b bs)
  then show ?case
    by (auto split: sum.splits prod.splits dest!: emit_block_graph)
qed

lemma allocate_blocks_graph [simp]: "graph (allocate_blocks bs w) = graph w"
  by (induction bs arbitrary: w) (simp_all add: Let_def split_beta)

lemma finalize_graph: "finalize opctx w = (r, w') \<Longrightarrow> graph w' = graph w"
  by (auto simp: finalize_def Let_def split: sum.splits if_splits)

lemma make_llvm_graph_graph:
  "make_llvm_graph opctx verify w = (r, w') \<Longrightarrow> graph w' = graph w"
  unfolding make_llvm_graph_def Let_def
  by (auto split: sum.splits prod.splits if_splits dest!: emit_blocks_graph finalize_graph)

text \<open>
  C9. Whatever the context and whether the lowering returns a function or raises, the
  graph the mapper holds is afterwards what it was: its name, its list of blocks and
  naming service, and every block, variable and operation of the heap with all their
  fields. What changes is the builder with its module and function, and the two
  dictionaries of the mapper.
\<close>

theorem make_llvm_graph_keeps_graph:
  "graph (snd (make_llvm_graph opctx verify w)) = graph w"
  by (rule make_llvm_graph_graph [OF surjective_pairing])


section \<open>What the lowering emits\<close>

lemma lower_args_values:
  "lower_args m as = Inr xs \<Longrightarrow> map Inr xs = map (lookup_value m) (filter is_var as)"
  by (induction as arbitrary: xs) (auto split: sum.splits if_splits)

lemma filter_var_const: "length (filter is_var as) + length (filter is_const as) = length as"
proof (induction as)
  case Nil
  show ?case by simp
next
  case (Cons a as)
  then show ?case by (cases a) simp_all
qed

lemma is_const_not_var: "is_const a = (\<not> is_var a)"
  by (cases a) simp_all

lemma process_op_emits:
  assumes "process_op opctx v w = (Inr u, w')"
  shows "\<exists>l lvals boolean.
      builder (llvm w) = Some l \<and> l < length (lblocks (lfunc (llvm w)))
    \<and> lower_args (llvm_values w)
        (args (op_heap (graph w) ! operation (var_heap (graph w) ! v))) = Inr lvals
    \<and> is_boolean_operation opctx
        (OperationObj (op_heap (graph w) ! operation (var_heap (graph w) ! v))) = Inr boolean
    \<and> lblocks (lfunc (llvm w')) =
        upd l (\<lambda>x. x\<lparr>linstrs := linstrs x @
            [Call (opname opctx (opcode (op_heap (graph w) ! operation (var_heap (graph w) ! v)))
                     @ ''_'' @ str_nat (length (args
                          (op_heap (graph w) ! operation (var_heap (graph w) ! v)))))
               (if boolean then i1 else opague_type (llvm w)) lvals]\<rparr>)
          (lblocks (lfunc (llvm w)))
    \<and> llvm_values w' = (llvm_values w)(v \<mapsto>
          CallResult l (length (linstrs (lblocks (lfunc (llvm w)) ! l)))
            (if boolean then i1 else opague_type (llvm w)))"
  using assms
  by (auto simp: process_op_def llvm_operation_def call_abstract_def CreateCall_def Let_def
      split: sum.splits prod.splits dest!: emit_cases)

text \<open>
  C10. When \<open>process_op\<close> lowers a variable, it emits one call at the cursor. The
  arguments of the call are the values the dictionary holds for the arguments of the
  operation that are variables, in their order; constants are left out. The name of the
  symbol ends in the number of all arguments, constants included. So the arguments of
  the call and the constant arguments together are as many as the number in the name,
  and with a constant among the arguments the call has fewer arguments than the name
  says.
\<close>

theorem process_op_call:
  assumes ok: "fst (process_op opctx var w) = Inr ()"
  shows "let operation' = op_heap (graph w) ! operation (var_heap (graph w) ! var);
             w' = snd (process_op opctx var w)
         in \<exists>l lvals restype.
              builder (llvm w) = Some l
            \<and> linstrs (lblocks (lfunc (llvm w')) ! l) =
                linstrs (lblocks (lfunc (llvm w)) ! l) @
                  [Call (opname opctx (opcode operation') @ ''_'' @
                           str_nat (length (args operation'))) restype lvals]
            \<and> map Inr lvals =
                map (lookup_value (llvm_values w)) (filter is_var (args operation'))
            \<and> length lvals + length (filter is_const (args operation'))
                = length (args operation')
            \<and> (if list_ex is_const (args operation')
                then length lvals < length (args operation')
                else length lvals = length (args operation'))"
proof -
  from ok have "process_op opctx var w = (Inr (), snd (process_op opctx var w))"
    by (simp add: prod_eq_iff)
  from process_op_emits [OF this] obtain l lvals boolean where
    l: "builder (llvm w) = Some l" "l < length (lblocks (lfunc (llvm w)))"
    and lv: "lower_args (llvm_values w)
        (args (op_heap (graph w) ! operation (var_heap (graph w) ! var))) = Inr lvals"
    and em: "lblocks (lfunc (llvm (snd (process_op opctx var w)))) =
        upd l (\<lambda>x. x\<lparr>linstrs := linstrs x @
            [Call (opname opctx (opcode (op_heap (graph w) ! operation (var_heap (graph w) ! var)))
                     @ ''_'' @ str_nat (length (args
                          (op_heap (graph w) ! operation (var_heap (graph w) ! var)))))
               (if boolean then i1 else opague_type (llvm w)) lvals]\<rparr>)
          (lblocks (lfunc (llvm w)))"
    by blast
  have vals: "map Inr lvals = map (lookup_value (llvm_values w))
      (filter is_var (args (op_heap (graph w) ! operation (var_heap (graph w) ! var))))"
    by (rule lower_args_values [OF lv])
  have len: "length lvals =
      length (filter is_var (args (op_heap (graph w) ! operation (var_heap (graph w) ! var))))"
    using arg_cong [OF vals, of length] by simp
  let ?as = "args (op_heap (graph w) ! operation (var_heap (graph w) ! var))"
  have sum: "length lvals + length (filter is_const ?as) = length ?as"
    using filter_var_const [of ?as] len by simp
  have ex: "length lvals < length ?as" if "list_ex is_const ?as"
  proof -
    from that have "filter is_const ?as \<noteq> []"
      by (simp add: list_ex_iff filter_empty_conv)
    then have "0 < length (filter is_const ?as)" by simp
    with sum show ?thesis by linarith
  qed
  have nex: "length lvals = length ?as" if "\<not> list_ex is_const ?as"
  proof -
    from that have "filter is_const ?as = []"
      by (simp add: list_ex_iff filter_empty_conv)
    with sum show ?thesis by simp
  qed
  have instr: "linstrs (lblocks (lfunc (llvm (snd (process_op opctx var w)))) ! l) =
      linstrs (lblocks (lfunc (llvm w)) ! l) @
        [Call (opname opctx (opcode (op_heap (graph w) ! operation (var_heap (graph w) ! var)))
                 @ ''_'' @ str_nat (length ?as))
           (if boolean then i1 else opague_type (llvm w)) lvals]"
    using l by (simp add: em nth_upd)
  show ?thesis
    unfolding Let_def
    using l(1) instr vals sum ex nex by (cases "list_ex is_const ?as") auto
qed

lemmas lowering_defs =
  LLVMMapper_init_def LLVMBuilder_init_def make_func_def make_module_def get_or_insert_func_def
  LLVMBuilder_add_block_def SetInsertPoint_def emit_def CreateCall_def CreateBr_def
  CreateCondBr_def CreateRet_def call_abstract_def lookup_value_def lookup_block_def
  llvm_operation_def process_op_def opctx_by_name_def opname_default_def
  get_condition_default_def

lemma op_heap_state_uses_full:
  "op_heap state_uses =
     [\<lparr>opcode = opcode_add, args = [Const (PyInt 2) None, Const (PyInt 3) None], result = Some 0\<rparr>,
      \<lparr>opcode = opcode_add, args = [Const (PyInt 1) None, Var 0], result = Some 1\<rparr>,
      \<lparr>opcode = opcode_add, args = [Var 0, Var 0], result = None\<rparr>,
      \<lparr>opcode = opcode_add, args = [Var 0, Const (PyInt 1) None, Var 1], result = None\<rparr>]"
  by (simp add: state_uses_def OperationBuilder_def FunctionGraph_def op'_def Operation_def
      create_variable_def upd_def temper_def make_temper_def const_def Let_def)

lemma graph_mapper_uses: "graph mapper_uses = state_uses"
proof -
  have "same_frame w (snd (process_op opctx v w))" for opctx v w
    by (rule process_op_frame [OF surjective_pairing])
  then show ?thesis
    by (simp add: mapper_uses_def same_frame_def Let_def split_beta LLVMMapper_init_def)
qed

lemma llvm_mapper_uses:
  "builder (llvm mapper_uses) = Some 0"
  "opague_type (llvm mapper_uses) = unknown_ptr"
  "lblocks (lfunc (llvm mapper_uses)) =
     [\<lparr>lblock_name = ''block_entry'', linstrs = [Call ''add_2'' unknown_ptr []]\<rparr>]"
  "llvm_values mapper_uses = [0 \<mapsto> CallResult 0 0 unknown_ptr]"
  by (simp_all add: mapper_uses_def lowering_defs var_heap_state_uses op_heap_state_uses_full
      opcode_add_def upd_def Let_def str_nat.simps digit_def)

text \<open>
  \<open>y = add(1, x)\<close> with \<open>x\<close> lowered: the call \<open>add_2\<close> takes the one value
  of \<open>x\<close>.
\<close>

theorem process_op_call_witness:
  "fst (process_op opctx_by_name 1 mapper_uses) = Inr ()
   \<and> (\<exists>restype. linstrs (lblocks (lfunc (llvm (snd (process_op opctx_by_name 1 mapper_uses)))) ! 0)
        = [Call ''add_2'' unknown_ptr [],
           Call ''add_2'' restype [CallResult 0 0 unknown_ptr]])"
proof -
  have ok: "fst (process_op opctx_by_name 1 mapper_uses) = Inr ()"
    by (simp add: lowering_defs graph_mapper_uses llvm_mapper_uses var_heap_state_uses
        op_heap_state_uses_full opcode_add_def upd_def Let_def)
  from process_op_call [OF ok] obtain l lvals restype where
    "builder (llvm mapper_uses) = Some l"
    "linstrs (lblocks (lfunc (llvm (snd (process_op opctx_by_name 1 mapper_uses)))) ! l) =
       linstrs (lblocks (lfunc (llvm mapper_uses)) ! l) @
         [Call (opname opctx_by_name (opcode (op_heap (graph mapper_uses) !
                    operation (var_heap (graph mapper_uses) ! 1))) @ ''_'' @
                  str_nat (length (args (op_heap (graph mapper_uses) !
                    operation (var_heap (graph mapper_uses) ! 1))))) restype lvals]"
    "map Inr lvals = map (lookup_value (llvm_values mapper_uses))
       (filter is_var (args (op_heap (graph mapper_uses) !
                    operation (var_heap (graph mapper_uses) ! 1))))"
    unfolding Let_def by blast
  then have "linstrs (lblocks (lfunc (llvm (snd (process_op opctx_by_name 1 mapper_uses)))) ! 0)
        = [Call ''add_2'' unknown_ptr [],
           Call ''add_2'' restype [CallResult 0 0 unknown_ptr]]"
    by (auto simp: graph_mapper_uses llvm_mapper_uses var_heap_state_uses
        op_heap_state_uses_full opcode_add_def opctx_by_name_def opname_default_def
        lookup_value_def str_nat.simps digit_def)
  with ok show ?thesis by blast
qed

section \<open>Blocks with two children\<close>

lemma process_ops_emits:
  assumes "process_ops opctx vs w = (Inr u, w')" and "builder (llvm w) = Some l"
  shows "length (lblocks (lfunc (llvm w'))) = length (lblocks (lfunc (llvm w)))
     \<and> (\<exists>calls. list_all is_Call calls \<and> length calls = length vs
           \<and> linstrs (lblocks (lfunc (llvm w')) ! l) = linstrs (lblocks (lfunc (llvm w)) ! l) @ calls)"
  using assms
proof (induction vs arbitrary: w)
  case Nil
  then show ?case by simp
next
  case (Cons v vs)
  from Cons.prems(1) obtain u1 w1 where
    p1: "process_op opctx v w = (Inr u1, w1)" and p2: "process_ops opctx vs w1 = (Inr u, w')"
    by (auto split: sum.splits prod.splits)
  from process_op_emits [OF p1] Cons.prems(2) obtain c where
    lv: "l < length (lblocks (lfunc (llvm w)))"
    and em: "lblocks (lfunc (llvm w1)) =
        upd l (\<lambda>x. x\<lparr>linstrs := linstrs x @ [c]\<rparr>) (lblocks (lfunc (llvm w)))"
    and c: "is_Call c"
    by auto
  from process_op_frame [OF p1] Cons.prems(2) have b1: "builder (llvm w1) = Some l"
    by (simp add: same_frame_def)
  from Cons.IH [OF p2 b1] obtain calls where
    len: "length (lblocks (lfunc (llvm w'))) = length (lblocks (lfunc (llvm w1)))"
    and calls: "list_all is_Call calls" "length calls = length vs"
      "linstrs (lblocks (lfunc (llvm w')) ! l) = linstrs (lblocks (lfunc (llvm w1)) ! l) @ calls"
    by blast
  have "list_all is_Call (c # calls)" "length (c # calls) = length (v # vs)"
    "linstrs (lblocks (lfunc (llvm w')) ! l) = linstrs (lblocks (lfunc (llvm w)) ! l) @ c # calls"
    using c calls lv by (simp_all add: em nth_upd)
  moreover have "length (lblocks (lfunc (llvm w'))) = length (lblocks (lfunc (llvm w)))"
    using len by (simp add: em)
  ultimately show ?case by blast
qed

lemma terminate_block_cases:
  assumes "terminate_block opctx block w = (Inr u, w')"
  shows "instrs (block_heap (graph w) ! block) \<noteq> []
    \<and> is_terminator opctx (OperationObj (op_heap (graph w) !
          operation (var_heap (graph w) ! last (instrs (block_heap (graph w) ! block))))) = Inr True
    \<and> is_conditional_branch opctx (OperationObj (op_heap (graph w) !
          operation (var_heap (graph w) ! last (instrs (block_heap (graph w) ! block))))) = Inr True
    \<and> length (children (block_heap (graph w) ! block)) = 2
    \<and> (\<exists>cond lcond l1 l2 b'.
          get_condition opctx (op_heap (graph w) !
            operation (var_heap (graph w) ! last (instrs (block_heap (graph w) ! block)))) = Inr cond
        \<and> lookup_value (llvm_values w) cond = Inr lcond
        \<and> lookup_block (llvm_blocks w) (children (block_heap (graph w) ! block) ! 0) = Inr l1
        \<and> lookup_block (llvm_blocks w) (children (block_heap (graph w) ! block) ! 1) = Inr l2
        \<and> emit (llvm w) (CondBr lcond l1 l2) = Inr b'
        \<and> w' = w\<lparr>llvm := b'\<rparr>)"
  using assms
  by (auto simp: terminate_block_def Let_def CreateCondBr_def split: sum.splits if_splits)

lemma terminate_block_assertion:
  assumes "instrs (block_heap (graph w) ! block) \<noteq> []"
    and "is_terminator opctx (OperationObj (op_heap (graph w) !
          operation (var_heap (graph w) ! last (instrs (block_heap (graph w) ! block))))) = Inr False
      \<or> (is_terminator opctx (OperationObj (op_heap (graph w) !
          operation (var_heap (graph w) ! last (instrs (block_heap (graph w) ! block))))) = Inr True
        \<and> is_conditional_branch opctx (OperationObj (op_heap (graph w) !
          operation (var_heap (graph w) ! last (instrs (block_heap (graph w) ! block))))) = Inr False)"
  shows "fst (terminate_block opctx block w) = Inl AssertionError"
  using assms by (auto simp: terminate_block_def Let_def)

lemma emit_block_two_children_cases:
  assumes ch: "children (block_heap (graph w) ! block) = [succ1, succ2]"
    and ne: "instrs (block_heap (graph w) ! block) \<noteq> []"
    and ok: "emit_block opctx block w = (Inr u, w')"
  shows "\<exists>l w2 u2. llvm_blocks w block = Some l
     \<and> process_ops opctx (butlast (instrs (block_heap (graph w) ! block)))
          (w\<lparr>llvm := SetInsertPoint (llvm w) l\<rparr>) = (Inr u2, w2)
     \<and> terminate_block opctx block w2 = (Inr u, w')"
  using ok ch ne
  unfolding emit_block_def Let_def
  by (auto simp: lookup_block_def split: sum.splits prod.splits option.splits)

text \<open>
  C4, amended. Take a block with exactly two children and at least one instruction.
  If its lowering returns, the operation of its last instruction is classified as a
  terminator and as a conditional branch, and what the lowering has added to the
  low-level block mapped to it is one call for each instruction but the last, followed
  by one conditional branch: on the value the dictionary holds for the condition of
  the operation, to the block mapped to the first child and then the block mapped to
  the second. If the operation is classified as no terminator, or as a terminator but
  no conditional branch, \<open>terminate_block\<close> raises an assertion error and the
  lowering of the block does not return. A block with two children and no instruction
  is not covered: it gets no branch and no assertion.
\<close>

theorem emit_block_two_children:
  assumes ch: "children (block_heap (graph w) ! block) = [succ1, succ2]"
    and ne: "instrs (block_heap (graph w) ! block) \<noteq> []"
  shows "let b = block_heap (graph w) ! block;
             op'' = op_heap (graph w) ! operation (var_heap (graph w) ! last (instrs b));
             w' = snd (emit_block opctx block w)
         in (fst (emit_block opctx block w) = Inr () \<longrightarrow>
               is_terminator opctx (OperationObj op'') = Inr True
             \<and> is_conditional_branch opctx (OperationObj op'') = Inr True
             \<and> (\<exists>l cond lcond l1 l2 calls.
                   llvm_blocks w block = Some l
                 \<and> get_condition opctx op'' = Inr cond
                 \<and> lookup_value (llvm_values w') cond = Inr lcond
                 \<and> llvm_blocks w succ1 = Some l1 \<and> llvm_blocks w succ2 = Some l2
                 \<and> list_all is_Call calls \<and> length calls = length (instrs b) - 1
                 \<and> linstrs (lblocks (lfunc (llvm w')) ! l) =
                     linstrs (lblocks (lfunc (llvm w)) ! l) @ calls @ [CondBr lcond l1 l2]))
          \<and> (is_terminator opctx (OperationObj op'') = Inr False
              \<or> (is_terminator opctx (OperationObj op'') = Inr True
                  \<and> is_conditional_branch opctx (OperationObj op'') = Inr False) \<longrightarrow>
               fst (terminate_block opctx block w) = Inl AssertionError
             \<and> fst (emit_block opctx block w) \<noteq> Inr ())"
proof -
  let ?b = "block_heap (graph w) ! block"
  let ?op = "op_heap (graph w) ! operation (var_heap (graph w) ! last (instrs ?b))"
  let ?w' = "snd (emit_block opctx block w)"
  have main: "is_terminator opctx (OperationObj ?op) = Inr True
             \<and> is_conditional_branch opctx (OperationObj ?op) = Inr True
             \<and> (\<exists>l cond lcond l1 l2 calls.
                   llvm_blocks w block = Some l
                 \<and> get_condition opctx ?op = Inr cond
                 \<and> lookup_value (llvm_values ?w') cond = Inr lcond
                 \<and> llvm_blocks w succ1 = Some l1 \<and> llvm_blocks w succ2 = Some l2
                 \<and> list_all is_Call calls \<and> length calls = length (instrs ?b) - 1
                 \<and> linstrs (lblocks (lfunc (llvm ?w')) ! l) =
                     linstrs (lblocks (lfunc (llvm w)) ! l) @ calls @ [CondBr lcond l1 l2])"
    if ok: "fst (emit_block opctx block w) = Inr ()"
  proof -
    from ok have eq: "emit_block opctx block w = (Inr (), ?w')"
      by (simp add: prod_eq_iff)
    from emit_block_two_children_cases [OF ch ne eq] obtain l w2 u2 where
      l: "llvm_blocks w block = Some l"
      and p: "process_ops opctx (butlast (instrs ?b)) (w\<lparr>llvm := SetInsertPoint (llvm w) l\<rparr>)
               = (Inr u2, w2)"
      and t: "terminate_block opctx block w2 = (Inr (), ?w')"
      by blast
    have cur: "builder (llvm (w\<lparr>llvm := SetInsertPoint (llvm w) l\<rparr>)) = Some l"
      by (simp add: SetInsertPoint_def)
    from process_ops_frame [OF p] have fr:
      "graph w2 = graph w" "llvm_blocks w2 = llvm_blocks w" "builder (llvm w2) = Some l"
      by (simp_all add: same_frame_def SetInsertPoint_def)
    from process_ops_emits [OF p cur] obtain calls where
      len: "length (lblocks (lfunc (llvm w2))) = length (lblocks (lfunc (llvm w)))"
      and calls: "list_all is_Call calls" "length calls = length (butlast (instrs ?b))"
        "linstrs (lblocks (lfunc (llvm w2)) ! l) = linstrs (lblocks (lfunc (llvm w)) ! l) @ calls"
      by (auto simp: SetInsertPoint_def)
    from terminate_block_cases [OF t] obtain cond lcond l1 l2 b' where
      tm: "is_terminator opctx (OperationObj ?op) = Inr True"
      and cb: "is_conditional_branch opctx (OperationObj ?op) = Inr True"
      and gc: "get_condition opctx ?op = Inr cond"
      and lc: "lookup_value (llvm_values w2) cond = Inr lcond"
      and l1: "lookup_block (llvm_blocks w) succ1 = Inr l1"
      and l2: "lookup_block (llvm_blocks w) succ2 = Inr l2"
      and em: "emit (llvm w2) (CondBr lcond l1 l2) = Inr b'"
      and w': "?w' = w2\<lparr>llvm := b'\<rparr>"
      unfolding fr using ch by auto
    from emit_cases [OF em] fr(3) have
      b': "l < length (lblocks (lfunc (llvm w2)))"
        "lblocks (lfunc b') =
           upd l (\<lambda>x. x\<lparr>linstrs := linstrs x @ [CondBr lcond l1 l2]\<rparr>) (lblocks (lfunc (llvm w2)))"
      by auto
    have i: "linstrs (lblocks (lfunc (llvm ?w')) ! l) =
        linstrs (lblocks (lfunc (llvm w)) ! l) @ calls @ [CondBr lcond l1 l2]"
      unfolding w' using b' calls(3) by (simp add: nth_upd)
    have v: "lookup_value (llvm_values ?w') cond = Inr lcond"
      unfolding w' using lc by simp
    have s1: "llvm_blocks w succ1 = Some l1" and s2: "llvm_blocks w succ2 = Some l2"
      using l1 l2 by (auto simp: lookup_block_def split: option.splits)
    show ?thesis
      using tm cb l gc v s1 s2 calls(1,2) i by (auto simp: length_butlast)
  qed
  have viol: "fst (terminate_block opctx block w) = Inl AssertionError
             \<and> fst (emit_block opctx block w) \<noteq> Inr ()"
    if bad: "is_terminator opctx (OperationObj ?op) = Inr False
              \<or> (is_terminator opctx (OperationObj ?op) = Inr True
                  \<and> is_conditional_branch opctx (OperationObj ?op) = Inr False)"
  proof -
    have "fst (terminate_block opctx block w) = Inl AssertionError"
      by (rule terminate_block_assertion [OF ne bad])
    moreover have "fst (emit_block opctx block w) \<noteq> Inr ()"
      using main bad by auto
    ultimately show ?thesis by blast
  qed
  show ?thesis
    unfolding Let_def using main viol by blast
qed

section \<open>Whole lowerings\<close>

lemma graph_f_parts:
  "block_heap graph_f =
     [\<lparr>block_id = 0, label = ''block'', pos = None, parents = [], children = [],
       block_funcgraph = True, instrs = [0]\<rparr>]"
  "var_heap graph_f = [\<lparr>name = ''0'', operation = 0, vtype = None, uses = []\<rparr>]"
  "op_heap graph_f =
     [\<lparr>opcode = opcode_add, args = [Const (PyInt 2) None, Const (PyInt 3) None],
       result = Some 0\<rparr>]"
  "blocks (funcgraph graph_f) = [0]"
  "fg_name (funcgraph graph_f) = ''f''"
  by (simp_all add: graph_f_def builder_defs str_nat.simps digit_def)

lemmas eval_defs =
  lowering_defs make_llvm_graph_def emit_block_def terminate_block_def finalize_def upd_def
  Let_def

text \<open>
  C1 as stated fails: with a context that classifies \<open>add\<close> as no terminator and a
  library check that accepts everything, lowering \<open>f\<close> raises an assertion error
  and the low-level block is left empty.
\<close>

theorem lowering_f_counterexample:
  "fst (make_llvm_graph opctx_by_name (\<lambda>b. True) (LLVMMapper_init graph_f)) = Inl AssertionError
   \<and> map linstrs (lblocks (lfunc (llvm (snd
        (make_llvm_graph opctx_by_name (\<lambda>b. True) (LLVMMapper_init graph_f)))))) = [[]]"
  by (simp add: eval_defs graph_f_parts opcode_add_def)

lemma graph_f_exit_parts:
  "block_heap graph_f_exit =
     [\<lparr>block_id = 0, label = ''block'', pos = None, parents = [], children = [1],
       block_funcgraph = True, instrs = [0]\<rparr>,
      \<lparr>block_id = 1, label = ''block_1'', pos = None, parents = [0], children = [],
       block_funcgraph = True, instrs = []\<rparr>]"
  "var_heap graph_f_exit = [\<lparr>name = ''0'', operation = 0, vtype = None, uses = []\<rparr>]"
  "op_heap graph_f_exit =
     [\<lparr>opcode = opcode_add, args = [Const (PyInt 2) None, Const (PyInt 3) None],
       result = Some 0\<rparr>]"
  "blocks (funcgraph graph_f_exit) = [0, 1]"
  "fg_name (funcgraph graph_f_exit) = ''f''"
  by (simp_all add: graph_f_exit_def builder_defs str_nat.simps digit_def)

lemma lowering_f_exit:
  "map_sum id (\<lambda>f. map linstrs (lblocks f))
     (fst (make_llvm_graph opctx_by_name (\<lambda>b. True) (LLVMMapper_init graph_f_exit)))
   = Inr [[Call ''add_2'' unknown_ptr [], Br 1], [Ret (null unknown_ptr)]]"
  by (simp add: eval_defs graph_f_exit_parts opcode_add_def str_nat.simps digit_def)

text \<open>
  C1, amended. Lowering the graph \<open>f\<close> returns no function, under any context and
  any library check: the entry block has an instruction and no children, so it is handed
  to \<open>terminate_block\<close>, which raises the exception of the classification query if
  the query raises, and an assertion error otherwise (the operation is no terminator,
  or no conditional branch, or the block does not have two children). The low-level
  block stays empty: no call, no return, no verification. With an empty exit block as
  the only child of the entry block, the lowering does produce the call \<open>add_2\<close>,
  without arguments, followed by a branch to the exit block, and the synthesized
  return of the null value of the opaque type in the exit block.
\<close>

theorem lowering_f_fails:
  "fst (make_llvm_graph opctx verify (LLVMMapper_init graph_f)) =
     Inl (case is_terminator opctx (OperationObj
                \<lparr>opcode = opcode_add, args = [Const (PyInt 2) None, Const (PyInt 3) None],
                 result = Some 0\<rparr>) of
            Inl e \<Rightarrow> e
          | Inr t \<Rightarrow>
              if \<not> t then AssertionError
              else (case is_conditional_branch opctx (OperationObj
                           \<lparr>opcode = opcode_add,
                            args = [Const (PyInt 2) None, Const (PyInt 3) None],
                            result = Some 0\<rparr>) of
                      Inl e \<Rightarrow> e
                    | Inr c \<Rightarrow> AssertionError))
   \<and> map linstrs (lblocks (lfunc (llvm (snd
        (make_llvm_graph opctx verify (LLVMMapper_init graph_f)))))) = [[]]
   \<and> map_sum id (\<lambda>f. map linstrs (lblocks f))
        (fst (make_llvm_graph opctx_by_name (\<lambda>b. True) (LLVMMapper_init graph_f_exit)))
      = Inr [[Call ''add_2'' unknown_ptr [], Br 1], [Ret (null unknown_ptr)]]"
proof -
  let ?op = "\<lparr>opcode = opcode_add, args = [Const (PyInt 2) None, Const (PyInt 3) None],
              result = Some 0\<rparr>"
  have "fst (make_llvm_graph opctx verify (LLVMMapper_init graph_f)) =
     Inl (case is_terminator opctx (OperationObj ?op) of
            Inl e \<Rightarrow> e
          | Inr t \<Rightarrow>
              if \<not> t then AssertionError
              else (case is_conditional_branch opctx (OperationObj ?op) of
                      Inl e \<Rightarrow> e
                    | Inr c \<Rightarrow> AssertionError))
   \<and> map linstrs (lblocks (lfunc (llvm (snd
        (make_llvm_graph opctx verify (LLVMMapper_init graph_f)))))) = [[]]"
    by (simp add: make_llvm_graph_def emit_block_def terminate_block_def
        LLVMMapper_init_def LLVMBuilder_init_def make_func_def make_module_def
        get_or_insert_func_def LLVMBuilder_add_block_def SetInsertPoint_def lookup_block_def
        graph_f_parts Let_def split: sum.splits)
  with lowering_f_exit show ?thesis by blast
qed

lemma graph_branch_parts:
  "block_heap graph_branch =
     [\<lparr>block_id = 0, label = ''block'', pos = None, parents = [], children = [1, 2],
       block_funcgraph = True, instrs = [0, 1]\<rparr>,
      \<lparr>block_id = 1, label = ''block_1'', pos = None, parents = [0], children = [],
       block_funcgraph = True, instrs = []\<rparr>,
      \<lparr>block_id = 2, label = ''block_2'', pos = None, parents = [0], children = [],
       block_funcgraph = True, instrs = []\<rparr>]"
  "var_heap graph_branch =
     [\<lparr>name = ''x'', operation = 0, vtype = None, uses = [1]\<rparr>,
      \<lparr>name = ''br'', operation = 1, vtype = None, uses = []\<rparr>]"
  "op_heap graph_branch =
     [\<lparr>opcode = opcode_named ''lt'', args = [Const (PyInt 1) None, Const (PyInt 2) None],
       result = Some 0\<rparr>,
      \<lparr>opcode = opcode_named ''br'', args = [Var 0], result = Some 1\<rparr>]"
  "blocks (funcgraph graph_branch) = [0, 1, 2]"
  "fg_name (funcgraph graph_branch) = ''h''"
  by (simp_all add: graph_branch_def OperationBuilder_def FunctionGraph_def add_block_def
      op'_def Operation_def create_variable_def block_extend_def upd_def temper_def
      make_temper_def name_or_block_def add_parents_def add_edge_def insert_ref_def const_def
      Let_def str_nat.simps digit_def)

lemma mapper_branch_parts:
  "graph mapper_branch = graph_branch"
  "llvm_blocks mapper_branch = [0 \<mapsto> 0, 1 \<mapsto> 1, 2 \<mapsto> 2]"
  "llvm_values mapper_branch = Map.empty"
  "builder (llvm mapper_branch) = None"
  "opague_type (llvm mapper_branch) = unknown_ptr"
  "lblocks (lfunc (llvm mapper_branch)) =
     [\<lparr>lblock_name = ''block_block'', linstrs = []\<rparr>,
      \<lparr>lblock_name = ''block_block_1'', linstrs = []\<rparr>,
      \<lparr>lblock_name = ''block_block_2'', linstrs = []\<rparr>]"
  by (simp_all add: mapper_branch_def graph_branch_parts lowering_defs Let_def numeral_2_eq_2)

text \<open>
  The entry block \<open>[x, br]\<close> with two children: one call, then the branch to the
  blocks of the first and the second child.
\<close>

theorem emit_block_two_children_witness:
  "children (block_heap (graph mapper_branch) ! 0) = [1, 2]
   \<and> instrs (block_heap (graph mapper_branch) ! 0) \<noteq> []
   \<and> fst (emit_block opctx_by_name 0 mapper_branch) = Inr ()
   \<and> (\<exists>calls lcond. list_all is_Call calls \<and> length calls = 1
        \<and> linstrs (lblocks (lfunc (llvm (snd (emit_block opctx_by_name 0 mapper_branch)))) ! 0)
            = calls @ [CondBr lcond 1 2])"
proof -
  have ch: "children (block_heap (graph mapper_branch) ! 0) = [1, 2]"
    and ne: "instrs (block_heap (graph mapper_branch) ! 0) \<noteq> []"
    by (simp_all add: mapper_branch_parts graph_branch_parts)
  have ok: "fst (emit_block opctx_by_name 0 mapper_branch) = Inr ()"
    by (simp add: eval_defs mapper_branch_parts graph_branch_parts opcode_named_def
        str_nat.simps digit_def)
  from emit_block_two_children [OF ch ne, of opctx_by_name] ok obtain l lcond l1 l2 calls where
    "llvm_blocks mapper_branch 0 = Some l"
    "llvm_blocks mapper_branch 1 = Some l1" "llvm_blocks mapper_branch 2 = Some l2"
    "list_all is_Call calls"
    "length calls = length (instrs (block_heap (graph mapper_branch) ! 0)) - 1"
    "linstrs (lblocks (lfunc (llvm (snd (emit_block opctx_by_name 0 mapper_branch)))) ! l) =
       linstrs (lblocks (lfunc (llvm mapper_branch)) ! l) @ calls @ [CondBr lcond l1 l2]"
    unfolding Let_def by blast
  then have "list_all is_Call calls \<and> length calls = 1
        \<and> linstrs (lblocks (lfunc (llvm (snd (emit_block opctx_by_name 0 mapper_branch)))) ! 0)
            = calls @ [CondBr lcond 1 2]"
    by (auto simp: mapper_branch_parts graph_branch_parts)
  with ch ne ok show ?thesis by blast
qed

lemma graph_fork_parts:
  "block_heap graph_fork =
     [\<lparr>block_id = 0, label = ''block'', pos = None, parents = [], children = [1, 2],
       block_funcgraph = True, instrs = []\<rparr>,
      \<lparr>block_id = 1, label = ''block_1'', pos = None, parents = [0], children = [],
       block_funcgraph = True, instrs = []\<rparr>,
      \<lparr>block_id = 2, label = ''block_2'', pos = None, parents = [0], children = [],
       block_funcgraph = True, instrs = []\<rparr>]"
  "blocks (funcgraph graph_fork) = [0, 1, 2]"
  "fg_name (funcgraph graph_fork) = ''h''"
  by (simp_all add: graph_fork_def OperationBuilder_def FunctionGraph_def add_block_def
      upd_def temper_def make_temper_def name_or_block_def add_parents_def add_edge_def
      insert_ref_def Let_def str_nat.simps digit_def)

text \<open>
  C4 as stated fails for a block with two children and no instruction. Under the base
  context, every query of which raises, the lowering of three empty blocks returns a
  function: nothing was asserted, and the block with two children holds no branch.
\<close>

theorem emit_block_empty_fork_counterexample:
  "children (block_heap graph_fork ! 0) = [1, 2]
   \<and> instrs (block_heap graph_fork ! 0) = []
   \<and> map_sum id (\<lambda>f. map linstrs (lblocks f))
        (fst (make_llvm_graph OperationContext_base (\<lambda>b. True) (LLVMMapper_init graph_fork)))
      = Inr [[], [], [Ret (null unknown_ptr)]]"
  by (simp add: eval_defs graph_fork_parts OperationContext_base_def)

lemma graph_ret_loop_parts:
  "block_heap graph_ret_loop =
     [\<lparr>block_id = 0, label = ''block'', pos = None, parents = [1], children = [1],
       block_funcgraph = True, instrs = [0]\<rparr>,
      \<lparr>block_id = 1, label = ''block_1'', pos = None, parents = [0], children = [0],
       block_funcgraph = True, instrs = [1]\<rparr>]"
  "var_heap graph_ret_loop =
     [\<lparr>name = ''x'', operation = 0, vtype = None, uses = [1]\<rparr>,
      \<lparr>name = ''r'', operation = 1, vtype = None, uses = []\<rparr>]"
  "op_heap graph_ret_loop =
     [\<lparr>opcode = opcode_add, args = [Const (PyInt 2) None, Const (PyInt 3) None],
       result = Some 0\<rparr>,
      \<lparr>opcode = opcode_named ''ret'', args = [Var 0], result = Some 1\<rparr>]"
  "blocks (funcgraph graph_ret_loop) = [0, 1]"
  "fg_name (funcgraph graph_ret_loop) = ''g''"
  by (simp_all add: graph_ret_loop_def OperationBuilder_def FunctionGraph_def add_block_def
      op'_def Operation_def create_variable_def block_append_def upd_def temper_def
      make_temper_def name_or_block_def add_parents_def add_children_def add_edge_def
      insert_ref_def const_def Let_def str_nat.simps digit_def)

text \<open>
  C5, on a graph whose last block is \<open>[r]\<close> with \<open>r\<close> a \<open>ret\<close> and has one
  child. The last instruction of the last block is classified as a return, yet the
  lowering adds the return of the null value after the branch: \<open>is_return\<close> was
  asked about the block, not about the operation of its last instruction.
\<close>

theorem finalize_return_after_ret_evaluated:
  "is_return opctx_by_name (OperationObj (op_heap graph_ret_loop !
       operation (var_heap graph_ret_loop !
         last (instrs (block_heap graph_ret_loop ! last (blocks (funcgraph graph_ret_loop)))))))
     = Inr True
   \<and> map_sum id (\<lambda>f. map linstrs (lblocks f))
        (fst (make_llvm_graph opctx_by_name (\<lambda>b. True) (LLVMMapper_init graph_ret_loop)))
      = Inr [[Call ''add_2'' unknown_ptr [], Br 1],
             [Call ''ret_1'' unknown_ptr [CallResult 0 0 unknown_ptr], Br 0,
              Ret (null unknown_ptr)]]"
  by (simp add: eval_defs graph_ret_loop_parts opcode_add_def opcode_named_def
      str_nat.simps digit_def)

end
